theory Spec2Isabelle
  imports Main "HOL-Library.Sublist"
begin

section \<open>WebviewSession: the request and header interception pipeline\<close>

text \<open>
  A delegate of \<^verbatim>\<open>webviewElement.ts\<close> is a callable evaluated against the details of one
  network event. Evaluating it either returns (a defined action, or \<^verbatim>\<open>undefined\<close>) or
  throws (for a request delegate: its promise rejects). Delegates are arbitrary host code,
  so each evaluation also transforms the surrounding world \<open>'w\<close>.
\<close>

datatype 'r outcome = Returned "'r option" | Threw

type_synonym ('d, 'r, 'w) delegate = "'d \<Rightarrow> 'w \<Rightarrow> 'r outcome \<times> 'w"

text \<open>Electron's \<^verbatim>\<open>Response\<close>: both members are optional.\<close>

record response =
  cancel :: "bool option"
  redirectURL :: "string option"

text \<open>What the headers callback is handed: \<^verbatim>\<open>{ cancel, responseHeaders? }\<close>.\<close>

record 'h headersResponse =
  headersCancel :: bool
  headersResponseHeaders :: "'h option"

record 'h onHeadersReceivedDetails =
  headersUrl :: string
  responseHeaders :: 'h

text \<open>
  What handling one event did: the argument the event's callback was invoked with
  (\<open>None\<close>: the callback was never invoked), the positions of the delegates that were
  evaluated, in the order of their evaluation, and the world afterwards.
\<close>

record ('r, 'w) handled =
  callback :: "'r option"
  evaluated :: "nat list"
  world :: 'w

text \<open>
  The loop shared by both listeners:
  \<^verbatim>\<open>for (const delegate of delegates) { const result = [await] delegate(details);
     if (typeof result !== 'undefined') { callback(result); return; } }
   callback(fallback);\<close>
  There is no \<^verbatim>\<open>try\<close> around the call, so a throwing delegate leaves the listener
  before any \<^verbatim>\<open>callback\<close>.
\<close>

fun delegateLoop ::
  "('d, 'r, 'w) delegate list \<Rightarrow> nat \<Rightarrow> 'd \<Rightarrow> 'r \<Rightarrow> nat list \<Rightarrow> 'w \<Rightarrow> ('r, 'w) handled" where
  "delegateLoop [] i details fallback seen w =
     \<lparr>callback = Some fallback, evaluated = seen, world = w\<rparr>"
| "delegateLoop (delegate # rest) i details fallback seen w =
     (case delegate details w of
        (Threw, w') \<Rightarrow> \<lparr>callback = None, evaluated = seen @ [i], world = w'\<rparr>
      | (Returned (Some result), w') \<Rightarrow>
          \<lparr>callback = Some result, evaluated = seen @ [i], world = w'\<rparr>
      | (Returned None, w') \<Rightarrow> delegateLoop rest (Suc i) details fallback (seen @ [i]) w')"

record ('d, 'h, 'w) webviewSession =
  onBeforeRequestDelegates :: "('d, response, 'w) delegate list"
  onHeadersReceivedDelegates ::
    "('h onHeadersReceivedDetails, 'h headersResponse, 'w) delegate list"

definition newWebviewSession :: "('d, 'h, 'w) webviewSession" where
  "newWebviewSession = \<lparr>onBeforeRequestDelegates = [], onHeadersReceivedDelegates = []\<rparr>"

definition onBeforeRequest ::
  "('d, response, 'w) delegate \<Rightarrow> ('d, 'h, 'w) webviewSession \<Rightarrow> ('d, 'h, 'w) webviewSession" where
  "onBeforeRequest delegate s =
     s\<lparr>onBeforeRequestDelegates := onBeforeRequestDelegates s @ [delegate]\<rparr>"

definition onHeadersReceived ::
  "('h onHeadersReceivedDetails, 'h headersResponse, 'w) delegate \<Rightarrow>
   ('d, 'h, 'w) webviewSession \<Rightarrow> ('d, 'h, 'w) webviewSession" where
  "onHeadersReceived delegate s =
     s\<lparr>onHeadersReceivedDelegates := onHeadersReceivedDelegates s @ [delegate]\<rparr>"

text \<open>The listener installed on \<^verbatim>\<open>session.webRequest.onBeforeRequest\<close>; its fallback is \<^verbatim>\<open>{}\<close>.\<close>

definition beforeRequestListener ::
  "('d, 'h, 'w) webviewSession \<Rightarrow> 'd \<Rightarrow> 'w \<Rightarrow> (response, 'w) handled" where
  "beforeRequestListener s details w =
     delegateLoop (onBeforeRequestDelegates s) 0 details
       \<lparr>cancel = None, redirectURL = None\<rparr> [] w"

text \<open>
  The listener installed on \<^verbatim>\<open>session.webRequest.onHeadersReceived\<close>; its fallback is
  \<^verbatim>\<open>{ cancel: false, responseHeaders: details.responseHeaders }\<close>.
\<close>

definition headersReceivedListener ::
  "('d, 'h, 'w) webviewSession \<Rightarrow> 'h onHeadersReceivedDetails \<Rightarrow> 'w \<Rightarrow>
   ('h headersResponse, 'w) handled" where
  "headersReceivedListener s details w =
     delegateLoop (onHeadersReceivedDelegates s) 0 details
       \<lparr>headersCancel = False, headersResponseHeaders = Some (responseHeaders details)\<rparr> [] w"

text \<open>
  Specification vocabulary: \<open>noOpinionRun ds details w = Some w'\<close> says that the
  delegates \<open>ds\<close>, evaluated one after the other from world \<open>w\<close>, all return
  \<^verbatim>\<open>undefined\<close> and leave the world \<open>w'\<close>.
\<close>

fun noOpinionRun :: "('d, 'r, 'w) delegate list \<Rightarrow> 'd \<Rightarrow> 'w \<Rightarrow> 'w option" where
  "noOpinionRun [] details w = Some w"
| "noOpinionRun (delegate # rest) details w =
     (case delegate details w of
        (Returned None, w') \<Rightarrow> noOpinionRun rest details w'
      | _ \<Rightarrow> None)"

text \<open>Delegates used as concrete inputs.\<close>

definition noOpinionDelegate :: "('d, 'r, nat) delegate" where
  "noOpinionDelegate details w = (Returned None, Suc w)"

definition throwingDelegate :: "('d, 'r, nat) delegate" where
  "throwingDelegate details w = (Threw, Suc w)"

definition redirectDelegate :: "string \<Rightarrow> ('d, response, nat) delegate" where
  "redirectDelegate url details w =
     (Returned (Some \<lparr>cancel = None, redirectURL = Some url\<rparr>), Suc w)"

definition cancelHeadersDelegate ::
  "(unit onHeadersReceivedDetails, unit headersResponse, nat) delegate" where
  "cancelHeadersDelegate details w =
     (Returned (Some \<lparr>headersCancel = True, headersResponseHeaders = None\<rparr>), Suc w)"

text \<open>Scenario 1 of the specification, with a third delegate registered after the redirect.\<close>

definition redirectingSession :: "(unit, unit, nat) webviewSession" where
  "redirectingSession =
     onHeadersReceived throwingDelegate
       (onHeadersReceived cancelHeadersDelegate
         (onHeadersReceived noOpinionDelegate
           (onBeforeRequest throwingDelegate
             (onBeforeRequest (redirectDelegate ''https://x/y'')
               (onBeforeRequest noOpinionDelegate newWebviewSession)))))"

definition indifferentSession :: "(unit, unit, nat) webviewSession" where
  "indifferentSession =
     onHeadersReceived noOpinionDelegate
       (onBeforeRequest noOpinionDelegate
         (onBeforeRequest noOpinionDelegate newWebviewSession))"

definition failingSession :: "(unit, unit, nat) webviewSession" where
  "failingSession =
     onHeadersReceived cancelHeadersDelegate
       (onHeadersReceived throwingDelegate
         (onHeadersReceived noOpinionDelegate
           (onBeforeRequest (redirectDelegate ''https://x/y'')
             (onBeforeRequest throwingDelegate
               (onBeforeRequest noOpinionDelegate newWebviewSession)))))"

section \<open>WebviewTagHandle: the surface and its lazily acquired session\<close>

text \<open>
  The private field \<^verbatim>\<open>_webContents: undefined | WebContents | 'destroyed'\<close>.
\<close>

datatype 'c webContentsField = FieldUndefined | FieldContents 'c | FieldDestroyed

text \<open>
  \<open>didCall\<close> is the flag of the \<^verbatim>\<open>once(...)\<close> wrapper around the
  \<^verbatim>\<open>'did-start-loading'\<close> listener; \<open>onFirstLoadFired\<close> lists the payloads fired on
  \<^verbatim>\<open>_onFirstLoad\<close>, oldest first.
\<close>

record 'c webviewTagHandle =
  webContentsField :: "'c webContentsField"
  didCall :: bool
  onFirstLoadFired :: "'c list"

definition newWebviewTagHandle :: "'c webviewTagHandle" where
  "newWebviewTagHandle =
     \<lparr>webContentsField = FieldUndefined, didCall = False, onFirstLoadFired = []\<rparr>"

text \<open>
  The getter \<^verbatim>\<open>webContents\<close>. Its first argument is what the surface's
  \<^verbatim>\<open>getWebContents()\<close> does if it is called now: return a session reference, return
  nothing, or throw. The getter returns its result and the handle afterwards; when
  \<^verbatim>\<open>getWebContents()\<close> throws, the assignment to \<^verbatim>\<open>_webContents\<close> is not reached.
\<close>

definition webContents ::
  "'c outcome \<Rightarrow> 'c webviewTagHandle \<Rightarrow> 'c outcome \<times> 'c webviewTagHandle" where
  "webContents peer h =
     (case webContentsField h of
        FieldDestroyed \<Rightarrow> (Returned None, h)
      | FieldContents c \<Rightarrow> (Returned (Some c), h)
      | FieldUndefined \<Rightarrow>
          (case peer of
             Threw \<Rightarrow> (Threw, h)
           | Returned None \<Rightarrow> (Returned None, h\<lparr>webContentsField := FieldUndefined\<rparr>)
           | Returned (Some c) \<Rightarrow> (Returned (Some c), h\<lparr>webContentsField := FieldContents c\<rparr>)))"

text \<open>The \<^verbatim>\<open>'destroyed'\<close> listener.\<close>

definition destroyedListener :: "'c webviewTagHandle \<Rightarrow> 'c webviewTagHandle" where
  "destroyedListener h = h\<lparr>webContentsField := FieldDestroyed\<rparr>"

text \<open>
  Modelled from the spec: the helper \<^verbatim>\<open>once\<close> of \<^verbatim>\<open>vs/base/common/functional\<close> is not
  among the sources. It wraps the \<^verbatim>\<open>'did-start-loading'\<close> listener so that the wrapped
  body runs on the first call only (``fires exactly once per handle instance even across
  multiple did-start-loading signals''): the flag is set before the body runs, and every
  later call returns without running it.

  The body reads the getter and, when it yields a session reference, fires
  \<^verbatim>\<open>_onFirstLoad\<close> with it.
\<close>

definition didStartLoadingListener ::
  "'c outcome \<Rightarrow> 'c webviewTagHandle \<Rightarrow> 'c webviewTagHandle" where
  "didStartLoadingListener peer h =
     (if didCall h then h
      else
        (case webContents peer (h\<lparr>didCall := True\<rparr>) of
           (Returned (Some contents), h') \<Rightarrow>
             h'\<lparr>onFirstLoadFired := onFirstLoadFired h' @ [contents]\<rparr>
         | (_, h') \<Rightarrow> h'))"

text \<open>
  What can happen to a handle: the surface is destroyed, the surface starts loading, or
  some component reads the getter. The last two carry what \<^verbatim>\<open>getWebContents()\<close> would do
  at that moment.
\<close>

datatype 'c handleSignal =
  SurfaceDestroyed
  | DidStartLoading "'c outcome"
  | ReadWebContents "'c outcome"

fun handleEvent :: "'c handleSignal \<Rightarrow> 'c webviewTagHandle \<Rightarrow> 'c webviewTagHandle" where
  "handleEvent SurfaceDestroyed h = destroyedListener h"
| "handleEvent (DidStartLoading peer) h = didStartLoadingListener peer h"
| "handleEvent (ReadWebContents peer) h = snd (webContents peer h)"

fun handleEvents :: "'c handleSignal list \<Rightarrow> 'c webviewTagHandle \<Rightarrow> 'c webviewTagHandle" where
  "handleEvents [] h = h"
| "handleEvents (e # es) h = handleEvents es (handleEvent e h)"

fun isDidStartLoading :: "'c handleSignal \<Rightarrow> bool" where
  "isDidStartLoading (DidStartLoading peer) = True"
| "isDidStartLoading e = False"

section \<open>ElectronWebviewBasedWebview: descriptor, channels, focus and find\<close>

text \<open>
  Modelled from the spec: the class \<^verbatim>\<open>URI\<close> (\<^verbatim>\<open>vs/base/common/uri\<close>) is not among the
  sources. A resource root is ``a filesystem/location prefix'', so a location is the list
  of its path segments and a descendant of a root is a location the root is a prefix of.
\<close>

type_synonym uri = "string list"

text \<open>
  Modelled from the spec: the interface \<^verbatim>\<open>WebviewContentOptions\<close> (\<^verbatim>\<open>browser/webview\<close>) is
  not among the sources. It ``includes localResourceRoots, portMapping (ordered list of
  {port, target}) and CSP-related flags''; the source reads \<^verbatim>\<open>localResourceRoots\<close> and
  \<^verbatim>\<open>portMapping\<close> as optional members.
\<close>

record webviewContentOptions =
  allowScripts :: "bool option"
  localResourceRoots :: "uri list option"
  portMapping :: "(nat \<times> nat) list option"

record webviewExtensionDescription =
  location :: uri
  extensionId :: string

text \<open>The interface \<^verbatim>\<open>WebviewContent\<close>.\<close>

record webviewContent =
  html :: string
  options :: webviewContentOptions
  state :: "string option"

text \<open>The payload of a \<^verbatim>\<open>'content'\<close> message: \<^verbatim>\<open>{ contents, options, state }\<close>.\<close>

record contentData =
  contents :: string
  dataOptions :: webviewContentOptions
  dataState :: "string option"

text \<open>
  The payload of a \<^verbatim>\<open>'styles'\<close> message: \<^verbatim>\<open>{ styles, activeTheme }\<close>, as
  \<^verbatim>\<open>webviewThemeDataProvider.getWebviewThemeData()\<close> returns it. The provider
  (\<^verbatim>\<open>common/themeing\<close>) is not among the sources; what it returns is a parameter of
  every function that asks it.
\<close>

record webviewThemeData =
  styles :: "(string \<times> string) list"
  activeTheme :: string

text \<open>The optional second argument of \<^verbatim>\<open>_send(channel, data?)\<close>.\<close>

datatype sendData =
  NoData
  | ContentData contentData
  | StylesData webviewThemeData

record message =
  messageChannel :: string
  messageData :: sendData

text \<open>Electron's \<^verbatim>\<open>FindInPageOptions\<close>: every member is optional.\<close>

record findInPageOptions =
  forward :: "bool option"
  findNext :: "bool option"
  matchCase :: "bool option"
  medialCapitalAsWordStart :: "bool option"

text \<open>The calls the bridge makes on its \<^verbatim>\<open><webview>\<close> element.\<close>

datatype elementCall =
  ElementSend message
  | ElementFocus
  | FindInPage string findInPageOptions
  | StopFindInPage string

text \<open>
  The state of one bridge. \<open>element\<close> says whether \<^verbatim>\<open>this.element\<close> is defined and
  \<open>ready\<close> whether the promise \<^verbatim>\<open>_ready\<close> has resolved (both are declared by
  \<^verbatim>\<open>BaseWebview\<close>, which is not among the sources; the source tests the first before
  every use and chains every send on the second). \<open>scheduledSends\<close> holds the sends
  chained on \<^verbatim>\<open>_ready\<close> that have not run yet, \<open>elementCalls\<close> the calls made on the
  element so far, and the last three fields the firings of the emitters
  \<^verbatim>\<open>_onDidFocus\<close>, \<^verbatim>\<open>_hasFindResult\<close> and \<^verbatim>\<open>_onDidUpdateState\<close>.
\<close>

record webview =
  element :: bool
  ready :: bool
  content :: webviewContent
  extension :: "webviewExtensionDescription option"
  focused :: bool
  findStarted :: bool
  scheduledSends :: "message list"
  elementCalls :: "elementCall list"
  onDidFocusFired :: nat
  hasFindResultFired :: "bool list"
  onDidUpdateStateFired :: "string option list"

text \<open>
  \<^verbatim>\<open>_send(channel, data)\<close> chains \<^verbatim>\<open>if (this.element) this.element.send(channel, data)\<close>
  on \<^verbatim>\<open>_ready\<close>. The data object is built when \<^verbatim>\<open>_send\<close> is called; the element is
  tested when the chained function runs.
\<close>

definition send :: "string \<Rightarrow> sendData \<Rightarrow> webview \<Rightarrow> webview" where
  "send channel data v =
     v\<lparr>scheduledSends := scheduledSends v @ [\<lparr>messageChannel = channel, messageData = data\<rparr>]\<rparr>"

text \<open>
  \<^verbatim>\<open>style()\<close> sends the theme payload on \<^verbatim>\<open>'styles'\<close>; its update of the find
  widget's theme is outside the state above.
\<close>

definition style :: "webviewThemeData \<Rightarrow> webview \<Rightarrow> webview" where
  "style themeData v = send ''styles'' (StylesData themeData) v"

text \<open>
  The state the constructor leaves: it initialises the fields and, as its last statement,
  calls \<^verbatim>\<open>this.style()\<close>, so one \<^verbatim>\<open>'styles'\<close> send is already chained on
  \<^verbatim>\<open>_ready\<close>.
\<close>

definition newWebview :: "webviewContentOptions \<Rightarrow> webviewThemeData \<Rightarrow> webview" where
  "newWebview contentOptions themeData =
     style themeData
       \<lparr>element = True, ready = False,
        content = \<lparr>html = [], options = contentOptions, state = None\<rparr>,
        extension = None, focused = False, findStarted = False,
        scheduledSends = [], elementCalls = [],
        onDidFocusFired = 0, hasFindResultFired = [], onDidUpdateStateFired = []\<rparr>"

text \<open>The chained functions run, in the order they were chained, once \<^verbatim>\<open>_ready\<close> has resolved.\<close>

definition runScheduledSends :: "webview \<Rightarrow> webview" where
  "runScheduledSends v =
     (if ready v
      then v\<lparr>scheduledSends := [],
             elementCalls := elementCalls v @
               (if element v then map ElementSend (scheduledSends v) else [])\<rparr>
      else v)"

definition doUpdateContent :: "webview \<Rightarrow> webview" where
  "doUpdateContent v =
     send ''content''
       (ContentData \<lparr>contents = html (content v), dataOptions = options (content v),
                     dataState = state (content v)\<rparr>) v"

text \<open>The setter \<^verbatim>\<open>set state(state)\<close>.\<close>

definition set_state :: "string option \<Rightarrow> webview \<Rightarrow> webview" where
  "set_state s v =
     v\<lparr>content := \<lparr>html = html (content v), options = options (content v), state = s\<rparr>\<rparr>"

text \<open>
  The setter \<^verbatim>\<open>set contentOptions(options)\<close>. The comparison
  \<^verbatim>\<open>areWebviewInputOptionsEqual\<close> (\<^verbatim>\<open>browser/webviewWorkbenchService\<close>) is not among the
  sources and is a parameter.
\<close>

definition set_contentOptions ::
  "(webviewContentOptions \<Rightarrow> webviewContentOptions \<Rightarrow> bool) \<Rightarrow>
   webviewContentOptions \<Rightarrow> webview \<Rightarrow> webview" where
  "set_contentOptions areWebviewInputOptionsEqual opts v =
     (if areWebviewInputOptionsEqual opts (options (content v)) then v
      else doUpdateContent
        (v\<lparr>content := \<lparr>html = html (content v), options = opts, state = state (content v)\<rparr>\<rparr>))"

text \<open>The setter \<^verbatim>\<open>set html(value)\<close>.\<close>

definition set_html :: "string \<Rightarrow> webview \<Rightarrow> webview" where
  "set_html value v =
     doUpdateContent
       (v\<lparr>content := \<lparr>html = value, options = options (content v), state = state (content v)\<rparr>\<rparr>)"

definition reload :: "webview \<Rightarrow> webview" where
  "reload v = doUpdateContent v"

definition handleFocusChange :: "bool \<Rightarrow> webview \<Rightarrow> webview" where
  "handleFocusChange isFocused v =
     (let v' = v\<lparr>focused := isFocused\<rparr>
      in if isFocused then v'\<lparr>onDidFocusFired := Suc (onDidFocusFired v')\<rparr> else v')"

definition focus :: "webview \<Rightarrow> webview" where
  "focus v =
     (if \<not> element v then v
      else handleFocusChange True
        (send ''focus'' NoData (v\<lparr>elementCalls := elementCalls v @ [ElementFocus]\<rparr>)))"

text \<open>
  \<^verbatim>\<open>startFind(value, options?)\<close>; \<^verbatim>\<open>!value\<close> holds of the empty string, and an absent
  \<^verbatim>\<open>options\<close> is replaced by \<^verbatim>\<open>{}\<close>.
\<close>

definition startFind :: "string \<Rightarrow> findInPageOptions option \<Rightarrow> webview \<Rightarrow> webview" where
  "startFind value opts v =
     (if value = [] \<or> \<not> element v then v
      else
        (let opts' = (case opts of
                        None \<Rightarrow> \<lparr>forward = None, findNext = None, matchCase = None,
                                  medialCapitalAsWordStart = None\<rparr>
                      | Some given \<Rightarrow> given);
             findOptions = \<lparr>forward = forward opts', findNext = Some False,
                            matchCase = matchCase opts',
                            medialCapitalAsWordStart = medialCapitalAsWordStart opts'\<rparr>
         in v\<lparr>findStarted := True,
              elementCalls := elementCalls v @ [FindInPage value findOptions]\<rparr>))"

definition find_webview :: "string \<Rightarrow> bool \<Rightarrow> webview \<Rightarrow> webview" where
  "find_webview value previous v =
     (if \<not> element v then v
      else if value = [] then v
      else
        (let opts = \<lparr>forward = Some (\<not> previous), findNext = Some True, matchCase = None,
                     medialCapitalAsWordStart = None\<rparr>
         in if \<not> findStarted v then startFind value (Some opts) v
            else v\<lparr>elementCalls := elementCalls v @ [FindInPage value opts]\<rparr>))"

text \<open>\<^verbatim>\<open>stopFind(keepSelection?)\<close>: the emitter is fired before the element is tested.\<close>

definition stopFind :: "bool option \<Rightarrow> webview \<Rightarrow> webview" where
  "stopFind keepSelection v =
     (let v' = v\<lparr>hasFindResultFired := hasFindResultFired v @ [False]\<rparr>
      in if \<not> element v' then v'
         else v'\<lparr>findStarted := False,
                 elementCalls := elementCalls v' @
                   [StopFindInPage
                     (if keepSelection = Some True then ''keepSelection'' else ''clearSelection'')]\<rparr>)"

subsection \<open>Inbound channels\<close>

text \<open>An \<^verbatim>\<open>'ipc-message'\<close> event: its channel and its argument list, which may be absent.\<close>

record 'a ipcMessageEvent =
  channel :: string
  args :: "'a list option"

text \<open>
  The listener that \<^verbatim>\<open>on(channel, handler)\<close> adds: the argument it invokes the handler
  with on an event, or \<open>None\<close> when it does not invoke the handler.
\<close>

definition ipcMessageArgument :: "string \<Rightarrow> 'a ipcMessageEvent \<Rightarrow> webview \<Rightarrow> 'a option" where
  "ipcMessageArgument ch event v =
     (if \<not> element v then None
      else if channel event = ch
      then (case args event of
              None \<Rightarrow> None
            | Some [] \<Rightarrow> None
            | Some (first # rest) \<Rightarrow> Some first)
      else None)"

definition ipcMessageListener ::
  "string \<Rightarrow> ('a \<Rightarrow> webview \<Rightarrow> webview) \<Rightarrow> 'a ipcMessageEvent \<Rightarrow> webview \<Rightarrow> webview" where
  "ipcMessageListener ch handler event v =
     (case ipcMessageArgument ch event v of
        None \<Rightarrow> v
      | Some data \<Rightarrow> handler data v)"

text \<open>
  \<^verbatim>\<open>on(channel, handler)\<close>: without an element nothing is registered
  (\<^verbatim>\<open>Disposable.None\<close>); otherwise the listener above is added to the element.
\<close>

definition on ::
  "string \<Rightarrow> ('a \<Rightarrow> webview \<Rightarrow> webview) \<Rightarrow> webview \<Rightarrow>
   ('a ipcMessageEvent \<Rightarrow> webview \<Rightarrow> webview) option" where
  "on ch handler v = (if \<not> element v then None else Some (ipcMessageListener ch handler))"

text \<open>
  Modelled from the spec: the enumeration \<^verbatim>\<open>WebviewMessageChannels\<close>
  (\<^verbatim>\<open>browser/baseWebviewElement\<close>) is not among the sources; the inbound channels are named
  \<^verbatim>\<open>do-reload\<close>, \<^verbatim>\<open>do-update-state\<close>, \<^verbatim>\<open>did-focus\<close> and \<^verbatim>\<open>did-blur\<close>.
\<close>

definition doReload :: string where "doReload = ''do-reload''"
definition doUpdateState :: string where "doUpdateState = ''do-update-state''"
definition didFocus :: string where "didFocus = ''did-focus''"
definition didBlur :: string where "didBlur = ''did-blur''"

text \<open>The handlers the constructor subscribes on these channels.\<close>

definition doReloadHandler :: "string option \<Rightarrow> webview \<Rightarrow> webview" where
  "doReloadHandler data v = reload v"

definition doUpdateStateHandler :: "string option \<Rightarrow> webview \<Rightarrow> webview" where
  "doUpdateStateHandler data v =
     (let v' = set_state data v
      in v'\<lparr>onDidUpdateStateFired := onDidUpdateStateFired v' @ [data]\<rparr>)"

definition didFocusHandler :: "string option \<Rightarrow> webview \<Rightarrow> webview" where
  "didFocusHandler data v = handleFocusChange True v"

definition didBlurHandler :: "string option \<Rightarrow> webview \<Rightarrow> webview" where
  "didBlurHandler data v = handleFocusChange False v"

text \<open>
  An inbound \<^verbatim>\<open>'ipc-message'\<close> event runs the listeners of the element in the order the
  constructor added them. The constructor runs with the element present
  (\<^verbatim>\<open>this.element!\<close>), so each of its \<^verbatim>\<open>on\<close> calls adds its listener. The subscriptions
  on the other channels fire emitters or touch the DOM outside the state above and are
  left out.
\<close>

definition ipcMessage :: "string option ipcMessageEvent \<Rightarrow> webview \<Rightarrow> webview" where
  "ipcMessage event v =
     ipcMessageListener didBlur didBlurHandler event
       (ipcMessageListener didFocus didFocusHandler event
         (ipcMessageListener doUpdateState doUpdateStateHandler event
           (ipcMessageListener doReload doReloadHandler event v)))"

fun ipcMessages :: "string option ipcMessageEvent list \<Rightarrow> webview \<Rightarrow> webview" where
  "ipcMessages [] v = v"
| "ipcMessages (event # events) v = ipcMessages events (ipcMessage event v)"

section \<open>WebviewProtocolProvider: the custom resource scheme\<close>

text \<open>
  The two accessors the constructor of the bridge hands to the provider:
  \<^verbatim>\<open>() => this.extension ? this.extension.location : undefined\<close> and
  \<^verbatim>\<open>() => (this.content.options.localResourceRoots || [])\<close>.
\<close>

definition extensionLocationAccessor :: "webview \<Rightarrow> uri option" where
  "extensionLocationAccessor v =
     (case extension v of None \<Rightarrow> None | Some e \<Rightarrow> Some (location e))"

definition localResourceRootsAccessor :: "webview \<Rightarrow> uri list" where
  "localResourceRootsAccessor v =
     (case localResourceRoots (options (content v)) of None \<Rightarrow> [] | Some roots \<Rightarrow> roots)"

record webviewProtocolProvider =
  getExtensionLocation :: "webview \<Rightarrow> uri option"
  getLocalResourceRoots :: "webview \<Rightarrow> uri list"

definition newWebviewProtocolProvider :: webviewProtocolProvider where
  "newWebviewProtocolProvider =
     \<lparr>getExtensionLocation = extensionLocationAccessor,
      getLocalResourceRoots = localResourceRootsAccessor\<rparr>"

text \<open>
  Modelled from the spec: \<^verbatim>\<open>registerFileProtocol\<close> (\<^verbatim>\<open>electron-browser/webviewProtocols\<close>) is
  not among the sources. It is called with an extension location (a value) and a function
  returning the resource roots. It ``registers a custom scheme resolver scoped to the union
  of (a) the extension install location and (b) the live-evaluated local resource root
  set''; ``requests whose target path is not a descendant of any permitted root fail
  closed (request denied)''.
\<close>

record fileProtocol =
  protocolExtensionLocation :: "uri option"
  protocolGetRoots :: "webview \<Rightarrow> uri list"

definition registerFileProtocol :: "uri option \<Rightarrow> (webview \<Rightarrow> uri list) \<Rightarrow> fileProtocol" where
  "registerFileProtocol extensionLocation getRoots =
     \<lparr>protocolExtensionLocation = extensionLocation, protocolGetRoots = getRoots\<rparr>"

datatype resourceOutcome = ResourceAllowed | ResourceDenied

definition permittedRoots :: "fileProtocol \<Rightarrow> webview \<Rightarrow> uri list" where
  "permittedRoots p v =
     (case protocolExtensionLocation p of None \<Rightarrow> [] | Some l \<Rightarrow> [l]) @ protocolGetRoots p v"

definition resourceRequest :: "fileProtocol \<Rightarrow> uri \<Rightarrow> webview \<Rightarrow> resourceOutcome" where
  "resourceRequest p target v =
     (if list_ex (\<lambda>root. prefix root target) (permittedRoots p v)
      then ResourceAllowed else ResourceDenied)"

text \<open>
  \<^verbatim>\<open>registerProtocols\<close>, run when \<^verbatim>\<open>onFirstLoad\<close> fires, in the state \<open>v\<close> of the bridge at
  that moment: the extension location accessor is called here, the resource root accessor
  is wrapped in a function and handed on.
\<close>

definition registerProtocols :: "webviewProtocolProvider \<Rightarrow> webview \<Rightarrow> fileProtocol" where
  "registerProtocols provider v =
     registerFileProtocol (getExtensionLocation provider v)
       (\<lambda>v'. getLocalResourceRoots provider v')"

text \<open>Bridge states used as concrete inputs.\<close>

definition plainTheme :: webviewThemeData where
  "plainTheme = \<lparr>styles = [(''vscode-font-size'', ''13px'')], activeTheme = ''vscode-dark''\<rparr>"

definition noOptions :: webviewContentOptions where
  "noOptions = \<lparr>allowScripts = None, localResourceRoots = None, portMapping = None\<rparr>"

definition rootedOptions :: "uri list \<Rightarrow> webviewContentOptions" where
  "rootedOptions roots =
     \<lparr>allowScripts = None, localResourceRoots = Some roots, portMapping = None\<rparr>"

definition installedAt :: "uri \<Rightarrow> webview \<Rightarrow> webview" where
  "installedAt l v = v\<lparr>extension := Some \<lparr>location = l, extensionId = ''publisher.name''\<rparr>\<rparr>"

section \<open>Properties of the interception pipeline\<close>

lemma delegateLoop_defined:
  "noOpinionRun pre details w = Some w1 \<Longrightarrow> delegate details w1 = (Returned (Some r), w2) \<Longrightarrow>
   delegateLoop (pre @ delegate # post) i details fallback seen w =
     \<lparr>callback = Some r, evaluated = seen @ [i ..< Suc (i + length pre)], world = w2\<rparr>"
proof (induction pre arbitrary: i seen w)
  case Nil
  then show ?case by simp
next
  case (Cons d pre)
  from Cons.prems(1) obtain w' where d: "d details w = (Returned None, w')"
    and run: "noOpinionRun pre details w' = Some w1"
    by (auto split: prod.splits outcome.splits option.splits)
  have "delegateLoop (pre @ delegate # post) (Suc i) details fallback (seen @ [i]) w' =
     \<lparr>callback = Some r, evaluated = (seen @ [i]) @ [Suc i ..< Suc (Suc i + length pre)], world = w2\<rparr>"
    by (rule Cons.IH [OF run Cons.prems(2)])
  moreover have "[i ..< Suc (i + length (d # pre))] = i # [Suc i ..< Suc (Suc i + length pre)]"
    by (subst upt_rec) simp
  ultimately show ?case using d by simp
qed

lemma delegateLoop_threw:
  "noOpinionRun pre details w = Some w1 \<Longrightarrow> delegate details w1 = (Threw, w2) \<Longrightarrow>
   delegateLoop (pre @ delegate # post) i details fallback seen w =
     \<lparr>callback = None, evaluated = seen @ [i ..< Suc (i + length pre)], world = w2\<rparr>"
proof (induction pre arbitrary: i seen w)
  case Nil
  then show ?case by simp
next
  case (Cons d pre)
  from Cons.prems(1) obtain w' where d: "d details w = (Returned None, w')"
    and run: "noOpinionRun pre details w' = Some w1"
    by (auto split: prod.splits outcome.splits option.splits)
  have "delegateLoop (pre @ delegate # post) (Suc i) details fallback (seen @ [i]) w' =
     \<lparr>callback = None, evaluated = (seen @ [i]) @ [Suc i ..< Suc (Suc i + length pre)], world = w2\<rparr>"
    by (rule Cons.IH [OF run Cons.prems(2)])
  moreover have "[i ..< Suc (i + length (d # pre))] = i # [Suc i ..< Suc (Suc i + length pre)]"
    by (subst upt_rec) simp
  ultimately show ?case using d by simp
qed

lemma delegateLoop_fallback:
  "noOpinionRun ds details w = Some w1 \<Longrightarrow>
   delegateLoop ds i details fallback seen w =
     \<lparr>callback = Some fallback, evaluated = seen @ [i ..< i + length ds], world = w1\<rparr>"
proof (induction ds arbitrary: i seen w)
  case Nil
  then show ?case by simp
next
  case (Cons d ds)
  from Cons.prems obtain w' where d: "d details w = (Returned None, w')"
    and run: "noOpinionRun ds details w' = Some w1"
    by (auto split: prod.splits outcome.splits option.splits)
  have "delegateLoop ds (Suc i) details fallback (seen @ [i]) w' =
     \<lparr>callback = Some fallback, evaluated = (seen @ [i]) @ [Suc i ..< Suc i + length ds], world = w1\<rparr>"
    by (rule Cons.IH [OF run])
  moreover have "[i ..< i + length (d # ds)] = i # [Suc i ..< Suc i + length ds]"
    by (subst upt_rec) simp
  ultimately show ?case using d by simp
qed

text \<open>
  Claim C1. For every request event and every list of registered request delegates, the
  listener evaluates the delegates in registration order (positions \<open>0, 1, 2, \<dots>\<close>) and
  hands the callback the result of the first delegate that returns a defined action; no
  delegate registered after that one is evaluated (the evaluated positions stop there, the
  world is the one that delegate left, and the outcome does not depend on \<open>post\<close>). If every
  delegate returns \<^verbatim>\<open>undefined\<close>, the request callback receives \<^verbatim>\<open>{}\<close> (no redirect,
  no denial) and the headers callback receives
  \<^verbatim>\<open>{ cancel: false, responseHeaders: details.responseHeaders }\<close>. The headers listener
  short-circuits in the same way.
\<close>

theorem pipeline_first_defined_else_passthrough:
  fixes s :: "('d, 'h, 'w) webviewSession"
  shows
  "(onBeforeRequestDelegates s = pre @ delegate # post \<and>
      noOpinionRun pre details w = Some w1 \<and> delegate details w1 = (Returned (Some r), w2) \<longrightarrow>
      beforeRequestListener s details w =
        \<lparr>callback = Some r, evaluated = [0 ..< Suc (length pre)], world = w2\<rparr>) \<and>
   (noOpinionRun (onBeforeRequestDelegates s) details w = Some w3 \<longrightarrow>
      beforeRequestListener s details w =
        \<lparr>callback = Some \<lparr>cancel = None, redirectURL = None\<rparr>,
         evaluated = [0 ..< length (onBeforeRequestDelegates s)], world = w3\<rparr>) \<and>
   (onHeadersReceivedDelegates s = hpre @ hdelegate # hpost \<and>
      noOpinionRun hpre hdetails w = Some w4 \<and> hdelegate hdetails w4 = (Returned (Some hr), w5) \<longrightarrow>
      headersReceivedListener s hdetails w =
        \<lparr>callback = Some hr, evaluated = [0 ..< Suc (length hpre)], world = w5\<rparr>) \<and>
   (noOpinionRun (onHeadersReceivedDelegates s) hdetails w = Some w6 \<longrightarrow>
      headersReceivedListener s hdetails w =
        \<lparr>callback = Some \<lparr>headersCancel = False,
                            headersResponseHeaders = Some (responseHeaders hdetails)\<rparr>,
         evaluated = [0 ..< length (onHeadersReceivedDelegates s)], world = w6\<rparr>)"
  using delegateLoop_defined [of pre details w w1 delegate r w2 post 0 _ "[]"]
    delegateLoop_fallback [of "onBeforeRequestDelegates s" details w w3 0 _ "[]"]
    delegateLoop_defined [of hpre hdetails w w4 hdelegate hr w5 hpost 0 _ "[]"]
    delegateLoop_fallback [of "onHeadersReceivedDelegates s" hdetails w w6 0 _ "[]"]
  by (simp add: beforeRequestListener_def headersReceivedListener_def)

theorem pipeline_first_defined_else_passthrough_witness:
  "beforeRequestListener redirectingSession () 0 =
     \<lparr>callback = Some \<lparr>cancel = None, redirectURL = Some ''https://x/y''\<rparr>,
      evaluated = [0, 1], world = 2\<rparr> \<and>
   headersReceivedListener redirectingSession
     \<lparr>headersUrl = ''https://x/y'', responseHeaders = ()\<rparr> 0 =
     \<lparr>callback = Some \<lparr>headersCancel = True, headersResponseHeaders = None\<rparr>,
      evaluated = [0, 1], world = 2\<rparr> \<and>
   beforeRequestListener indifferentSession () 0 =
     \<lparr>callback = Some \<lparr>cancel = None, redirectURL = None\<rparr>,
      evaluated = [0, 1], world = 2\<rparr> \<and>
   headersReceivedListener indifferentSession
     \<lparr>headersUrl = ''https://x/y'', responseHeaders = ()\<rparr> 0 =
     \<lparr>callback = Some \<lparr>headersCancel = False, headersResponseHeaders = Some ()\<rparr>,
      evaluated = [0], world = 1\<rparr>"
proof -
  have s1: "onBeforeRequestDelegates redirectingSession =
      [noOpinionDelegate] @ redirectDelegate ''https://x/y'' # [throwingDelegate]"
    and h1: "onHeadersReceivedDelegates redirectingSession =
      [noOpinionDelegate] @ cancelHeadersDelegate # [throwingDelegate]"
    by (simp_all add: redirectingSession_def onBeforeRequest_def onHeadersReceived_def
        newWebviewSession_def)
  have s2: "onBeforeRequestDelegates indifferentSession = [noOpinionDelegate, noOpinionDelegate]"
    and h2: "onHeadersReceivedDelegates indifferentSession = [noOpinionDelegate]"
    by (simp_all add: indifferentSession_def onBeforeRequest_def onHeadersReceived_def
        newWebviewSession_def)
  have upt2: "[0 ..< Suc (Suc 0)] = [0, Suc 0]"
    by (simp add: upt_rec)
  from pipeline_first_defined_else_passthrough
    [of redirectingSession "[noOpinionDelegate]" "redirectDelegate ''https://x/y''"
        "[throwingDelegate]" "()" 0 1 "\<lparr>cancel = None, redirectURL = Some ''https://x/y''\<rparr>"
        2 0 "[noOpinionDelegate]" cancelHeadersDelegate "[throwingDelegate]"
        "\<lparr>headersUrl = ''https://x/y'', responseHeaders = ()\<rparr>" 1
        "\<lparr>headersCancel = True, headersResponseHeaders = None\<rparr>" 2 0]
  have first: "beforeRequestListener redirectingSession () 0 =
     \<lparr>callback = Some \<lparr>cancel = None, redirectURL = Some ''https://x/y''\<rparr>,
      evaluated = [0, 1], world = 2\<rparr> \<and>
   headersReceivedListener redirectingSession
     \<lparr>headersUrl = ''https://x/y'', responseHeaders = ()\<rparr> 0 =
     \<lparr>callback = Some \<lparr>headersCancel = True, headersResponseHeaders = None\<rparr>,
      evaluated = [0, 1], world = 2\<rparr>"
    by (simp add: s1 h1 upt2 noOpinionDelegate_def redirectDelegate_def
        cancelHeadersDelegate_def)
  from pipeline_first_defined_else_passthrough
    [of indifferentSession "[]" noOpinionDelegate "[]" "()" 0 0
        "\<lparr>cancel = None, redirectURL = None\<rparr>" 0 2
        "[]" noOpinionDelegate "[]"
        "\<lparr>headersUrl = ''https://x/y'', responseHeaders = ()\<rparr>" 0
        "\<lparr>headersCancel = True, headersResponseHeaders = None\<rparr>" 0 1]
  have second: "beforeRequestListener indifferentSession () 0 =
     \<lparr>callback = Some \<lparr>cancel = None, redirectURL = None\<rparr>,
      evaluated = [0, 1], world = 2\<rparr> \<and>
   headersReceivedListener indifferentSession
     \<lparr>headersUrl = ''https://x/y'', responseHeaders = ()\<rparr> 0 =
     \<lparr>callback = Some \<lparr>headersCancel = False, headersResponseHeaders = Some ()\<rparr>,
      evaluated = [0], world = 1\<rparr>"
    by (simp add: s2 h2 upt2 noOpinionDelegate_def)
  from first second show ?thesis by simp
qed

text \<open>
  Claim C2, as stated, fails. The listeners call each delegate without any \<^verbatim>\<open>try\<close>: a
  throwing first delegate ends the evaluation with the callback never invoked and the second
  delegate never evaluated, whereas the same list with a first delegate that returns
  \<^verbatim>\<open>undefined\<close> goes on to the second delegate and applies its redirect.
\<close>

theorem delegate_failure_not_no_opinion_counterexample:
  "beforeRequestListener
     \<lparr>onBeforeRequestDelegates = [throwingDelegate, redirectDelegate ''https://x/y''],
      onHeadersReceivedDelegates = []\<rparr> () 0 =
     \<lparr>callback = None, evaluated = [0], world = 1\<rparr> \<and>
   beforeRequestListener
     \<lparr>onBeforeRequestDelegates = [noOpinionDelegate, redirectDelegate ''https://x/y''],
      onHeadersReceivedDelegates = []\<rparr> () 0 =
     \<lparr>callback = Some \<lparr>cancel = None, redirectURL = Some ''https://x/y''\<rparr>,
      evaluated = [0, 1], world = 2\<rparr> \<and>
   headersReceivedListener
     \<lparr>onBeforeRequestDelegates = ([] :: (unit, response, nat) delegate list),
      onHeadersReceivedDelegates = [throwingDelegate]\<rparr>
     \<lparr>headersUrl = ''https://x/y'', responseHeaders = ()\<rparr> 0 =
     \<lparr>callback = None, evaluated = [0], world = 1\<rparr> \<and>
   headersReceivedListener
     \<lparr>onBeforeRequestDelegates = ([] :: (unit, response, nat) delegate list),
      onHeadersReceivedDelegates = [noOpinionDelegate]\<rparr>
     \<lparr>headersUrl = ''https://x/y'', responseHeaders = ()\<rparr> 0 =
     \<lparr>callback = Some \<lparr>headersCancel = False, headersResponseHeaders = Some ()\<rparr>,
      evaluated = [0], world = 1\<rparr>"
  by (simp add: beforeRequestListener_def headersReceivedListener_def
      throwingDelegate_def noOpinionDelegate_def redirectDelegate_def)

text \<open>
  Claim C2, amended. For every request or headers event, a delegate that throws (or whose
  promise rejects) when it is evaluated, every delegate before it having returned
  \<^verbatim>\<open>undefined\<close>, ends the evaluation of that event: no delegate after it is evaluated
  and the event's callback is never invoked, so neither a later delegate's action nor the
  default passthrough is applied.
\<close>

theorem delegate_failure_ends_evaluation:
  fixes s :: "('d, 'h, 'w) webviewSession"
  shows
  "(onBeforeRequestDelegates s = pre @ delegate # post \<and>
      noOpinionRun pre details w = Some w1 \<and> delegate details w1 = (Threw, w2) \<longrightarrow>
      beforeRequestListener s details w =
        \<lparr>callback = None, evaluated = [0 ..< Suc (length pre)], world = w2\<rparr>) \<and>
   (onHeadersReceivedDelegates s = hpre @ hdelegate # hpost \<and>
      noOpinionRun hpre hdetails w = Some w4 \<and> hdelegate hdetails w4 = (Threw, w5) \<longrightarrow>
      headersReceivedListener s hdetails w =
        \<lparr>callback = None, evaluated = [0 ..< Suc (length hpre)], world = w5\<rparr>)"
  using delegateLoop_threw [of pre details w w1 delegate w2 post 0 _ "[]"]
    delegateLoop_threw [of hpre hdetails w w4 hdelegate w5 hpost 0 _ "[]"]
  by (simp add: beforeRequestListener_def headersReceivedListener_def)

theorem delegate_failure_ends_evaluation_witness:
  "beforeRequestListener failingSession () 0 =
     \<lparr>callback = None, evaluated = [0, 1], world = 2\<rparr> \<and>
   headersReceivedListener failingSession
     \<lparr>headersUrl = ''https://x/y'', responseHeaders = ()\<rparr> 0 =
     \<lparr>callback = None, evaluated = [0, 1], world = 2\<rparr>"
proof -
  have s1: "onBeforeRequestDelegates failingSession =
      [noOpinionDelegate] @ throwingDelegate # [redirectDelegate ''https://x/y'']"
    and h1: "onHeadersReceivedDelegates failingSession =
      [noOpinionDelegate] @ throwingDelegate # [cancelHeadersDelegate]"
    by (simp_all add: failingSession_def onBeforeRequest_def onHeadersReceived_def
        newWebviewSession_def)
  have upt2: "[0 ..< Suc (Suc 0)] = [0, Suc 0]"
    by (simp add: upt_rec)
  from delegate_failure_ends_evaluation
    [of failingSession "[noOpinionDelegate]" throwingDelegate
        "[redirectDelegate ''https://x/y'']" "()" 0 1 2
        "[noOpinionDelegate]" throwingDelegate "[cancelHeadersDelegate]"
        "\<lparr>headersUrl = ''https://x/y'', responseHeaders = ()\<rparr>" 1 2]
  show ?thesis
    by (simp add: s1 h1 upt2 noOpinionDelegate_def throwingDelegate_def)
qed

section \<open>Properties of the surface handle\<close>

lemma handleEvents_append:
  "handleEvents (xs @ ys) h = handleEvents ys (handleEvents xs h)"
  by (induction xs arbitrary: h) simp_all

lemma webContents_keeps_firing_state:
  "didCall (snd (webContents peer h)) = didCall h"
  "onFirstLoadFired (snd (webContents peer h)) = onFirstLoadFired h"
  by (simp_all add: webContents_def split: webContentsField.splits outcome.splits option.splits)

lemma handleEvent_after_call:
  "didCall h \<Longrightarrow>
   didCall (handleEvent e h) \<and> onFirstLoadFired (handleEvent e h) = onFirstLoadFired h"
  by (cases e)
    (simp_all add: destroyedListener_def didStartLoadingListener_def
      webContents_keeps_firing_state)

lemma handleEvents_after_call:
  "didCall h \<Longrightarrow> onFirstLoadFired (handleEvents es h) = onFirstLoadFired h"
proof (induction es arbitrary: h)
  case Nil
  then show ?case by simp
next
  case (Cons e es)
  from Cons.prems have "didCall (handleEvent e h)"
    and "onFirstLoadFired (handleEvent e h) = onFirstLoadFired h"
    using handleEvent_after_call [of h e] by simp_all
  with Cons.IH [of "handleEvent e h"] show ?case by simp
qed

lemma handleEvent_before_signal:
  "\<not> isDidStartLoading e \<Longrightarrow>
   didCall (handleEvent e h) = didCall h \<and>
   onFirstLoadFired (handleEvent e h) = onFirstLoadFired h"
  by (cases e) (simp_all add: destroyedListener_def webContents_keeps_firing_state)

lemma handleEvents_before_signal:
  "list_all (\<lambda>e. \<not> isDidStartLoading e) es \<Longrightarrow>
   didCall (handleEvents es h) = didCall h \<and>
   onFirstLoadFired (handleEvents es h) = onFirstLoadFired h"
proof (induction es arbitrary: h)
  case Nil
  then show ?case by simp
next
  case (Cons e es)
  then show ?case using handleEvent_before_signal [of e h] by simp
qed

lemma didStartLoadingListener_calls: "didCall (didStartLoadingListener peer h)"
  by (simp add: didStartLoadingListener_def webContents_def
      split: webContentsField.splits outcome.splits option.splits)

lemma destroyed_stays:
  "webContentsField h = FieldDestroyed \<Longrightarrow> webContentsField (handleEvent e h) = FieldDestroyed"
  by (cases e)
    (simp_all add: destroyedListener_def didStartLoadingListener_def webContents_def)

lemma destroyed_stays_events:
  "webContentsField h = FieldDestroyed \<Longrightarrow> webContentsField (handleEvents es h) = FieldDestroyed"
  by (induction es arbitrary: h) (simp_all add: destroyed_stays)

lemma destroyed_before:
  "SurfaceDestroyed \<in> set es \<Longrightarrow> webContentsField (handleEvents es h) = FieldDestroyed"
proof -
  assume "SurfaceDestroyed \<in> set es"
  then obtain xs ys where es: "es = xs @ SurfaceDestroyed # ys"
    by (auto simp: in_set_conv_decomp)
  have "webContentsField (handleEvent SurfaceDestroyed (handleEvents xs h)) = FieldDestroyed"
    by (simp add: destroyedListener_def)
  then show ?thesis
    unfolding es handleEvents_append by (simp add: destroyed_stays_events)
qed

lemma contents_stays:
  "webContentsField h = FieldContents c \<Longrightarrow> e \<noteq> SurfaceDestroyed \<Longrightarrow>
   webContentsField (handleEvent e h) = FieldContents c"
  by (cases e) (simp_all add: didStartLoadingListener_def webContents_def)

lemma contents_stays_events:
  "webContentsField h = FieldContents c \<Longrightarrow> SurfaceDestroyed \<notin> set es \<Longrightarrow>
   webContentsField (handleEvents es h) = FieldContents c"
proof (induction es arbitrary: h)
  case Nil
  then show ?case by simp
next
  case (Cons e es)
  from Cons.prems have "e \<noteq> SurfaceDestroyed" and rest: "SurfaceDestroyed \<notin> set es"
    by auto
  with Cons.prems(1) have "webContentsField (handleEvent e h) = FieldContents c"
    by (simp add: contents_stays)
  from Cons.IH [OF this rest] show ?case by simp
qed

lemma first_signal_fires:
  assumes "\<not> didCall h"
  shows "onFirstLoadFired (didStartLoadingListener peer h) =
    (case fst (webContents peer h) of
       Returned (Some c) \<Rightarrow> onFirstLoadFired h @ [c]
     | _ \<Rightarrow> onFirstLoadFired h)"
  using assms
  by (simp add: didStartLoadingListener_def webContents_def
      split: webContentsField.splits outcome.splits option.splits)

lemma no_signal_or_first_signal:
  "list_all (\<lambda>e. \<not> isDidStartLoading e) es \<or>
   (\<exists>pre peer post. es = pre @ DidStartLoading peer # post \<and>
      list_all (\<lambda>e. \<not> isDidStartLoading e) pre)"
proof (cases "\<exists>e \<in> set es. isDidStartLoading e")
  case True
  then obtain pre e post where es: "es = pre @ e # post" and e: "isDidStartLoading e"
    and pre: "\<forall>x \<in> set pre. \<not> isDidStartLoading x"
    using split_list_first_prop [of es isDidStartLoading] by blast
  from e obtain peer where "e = DidStartLoading peer"
    by (cases e) simp_all
  with es pre show ?thesis by (auto simp: list_all_iff)
next
  case False
  then show ?thesis by (simp add: list_all_iff)
qed

lemma fired_at_first_signal:
  assumes "list_all (\<lambda>e. \<not> isDidStartLoading e) pre"
  shows "onFirstLoadFired (handleEvents (pre @ DidStartLoading peer # post) newWebviewTagHandle) =
    (case fst (webContents peer (handleEvents pre newWebviewTagHandle)) of
       Returned (Some c) \<Rightarrow> [c]
     | _ \<Rightarrow> [])"
proof -
  let ?h = "handleEvents pre (newWebviewTagHandle :: 'a webviewTagHandle)"
  from handleEvents_before_signal [OF assms, of newWebviewTagHandle]
  have quiet: "\<not> didCall ?h" "onFirstLoadFired ?h = []"
    by (simp_all add: newWebviewTagHandle_def)
  have "onFirstLoadFired (handleEvents post (didStartLoadingListener peer ?h)) =
      onFirstLoadFired (didStartLoadingListener peer ?h)"
    by (rule handleEvents_after_call) (rule didStartLoadingListener_calls)
  also have "\<dots> = (case fst (webContents peer ?h) of
       Returned (Some c) \<Rightarrow> onFirstLoadFired ?h @ [c]
     | _ \<Rightarrow> onFirstLoadFired ?h)"
    by (rule first_signal_fires) (rule quiet(1))
  finally show ?thesis
    by (simp add: handleEvents_append quiet(2) split: outcome.splits option.splits)
qed

lemma never_fired_without_signal:
  assumes "list_all (\<lambda>e. \<not> isDidStartLoading e) es"
  shows "onFirstLoadFired (handleEvents es newWebviewTagHandle) = []"
  using handleEvents_before_signal [OF assms, of newWebviewTagHandle]
  by (simp add: newWebviewTagHandle_def)

lemma destroyed_reads_undefined:
  "webContentsField h = FieldDestroyed \<Longrightarrow> webContents peer h = (Returned None, h)"
  by (simp add: webContents_def)

lemma never_fired_after_destroy:
  assumes destroyed: "SurfaceDestroyed \<in> set pre"
    and quiet: "list_all (\<lambda>e. \<not> isDidStartLoading e) pre"
  shows "onFirstLoadFired (handleEvents (pre @ post) newWebviewTagHandle) = []"
proof -
  from no_signal_or_first_signal [of post]
  consider "list_all (\<lambda>e. \<not> isDidStartLoading e) post"
    | p1 peer p2 where "post = p1 @ DidStartLoading peer # p2"
        "list_all (\<lambda>e. \<not> isDidStartLoading e) p1"
    by blast
  then show ?thesis
  proof cases
    case 1
    with quiet have "list_all (\<lambda>e. \<not> isDidStartLoading e) (pre @ post)" by simp
    then show ?thesis by (rule never_fired_without_signal)
  next
    case 2
    from 2(2) quiet have q: "list_all (\<lambda>e. \<not> isDidStartLoading e) (pre @ p1)" by simp
    from destroyed have "SurfaceDestroyed \<in> set (pre @ p1)" by simp
    then have "webContentsField (handleEvents (pre @ p1) (newWebviewTagHandle :: 'a webviewTagHandle))
        = FieldDestroyed"
      by (rule destroyed_before)
    then have "fst (webContents peer (handleEvents (pre @ p1) (newWebviewTagHandle :: 'a webviewTagHandle)))
        = Returned None"
      by (simp add: destroyed_reads_undefined)
    with fired_at_first_signal [OF q, of peer p2] show ?thesis
      by (simp add: 2(1))
  qed
qed

lemma fired_at_most_once:
  "length (onFirstLoadFired (handleEvents es newWebviewTagHandle)) \<le> 1"
proof -
  from no_signal_or_first_signal [of es]
  consider "list_all (\<lambda>e. \<not> isDidStartLoading e) es"
    | pre peer post where "es = pre @ DidStartLoading peer # post"
        "list_all (\<lambda>e. \<not> isDidStartLoading e) pre"
    by blast
  then show ?thesis
  proof cases
    case 1
    then show ?thesis by (simp add: never_fired_without_signal)
  next
    case 2
    show ?thesis
      unfolding 2(1) fired_at_first_signal [OF 2(2)]
      by (simp split: outcome.splits option.splits)
  qed
qed

text \<open>
  Claim C4, as stated, fails. When the first \<^verbatim>\<open>'did-start-loading'\<close> signal finds no
  session reference, the \<^verbatim>\<open>once\<close> wrapper is spent: at the second signal a reference is
  obtainable (the getter would return it), the surface was never destroyed, and still
  \<^verbatim>\<open>onFirstLoad\<close> has not fired, and it never will. The same happens when
  \<^verbatim>\<open>getWebContents()\<close> throws at the first signal.
\<close>

theorem onFirstLoad_late_session_counterexample:
  "fst (webContents (Returned (Some 7))
     (handleEvents [DidStartLoading (Returned None)] newWebviewTagHandle)) =
     Returned (Some (7::nat)) \<and>
   onFirstLoadFired
     (handleEvents [DidStartLoading (Returned None), DidStartLoading (Returned (Some 7)),
        DidStartLoading (Returned (Some 7))] newWebviewTagHandle) = ([] :: nat list) \<and>
   onFirstLoadFired
     (handleEvents [DidStartLoading Threw, DidStartLoading (Returned (Some 7))]
        newWebviewTagHandle) = ([] :: nat list)"
  by (simp add: newWebviewTagHandle_def didStartLoadingListener_def webContents_def)

text \<open>
  Claim C4, amended. For every handle instance and every sequence of \<^verbatim>\<open>'destroyed'\<close>
  signals, \<^verbatim>\<open>'did-start-loading'\<close> signals and reads of the getter, \<^verbatim>\<open>onFirstLoad\<close> fires
  at most once. It fires at the first \<^verbatim>\<open>'did-start-loading'\<close> signal, carrying the session
  reference the getter yields there, exactly when the getter yields one at that signal;
  otherwise it never fires. No later signal fires it. Without any such signal it does not
  fire, and if the surface is destroyed before the first signal it never fires at all.
\<close>

theorem onFirstLoad_fires_at_first_signal_only:
  "length (onFirstLoadFired (handleEvents es newWebviewTagHandle)) \<le> 1 \<and>
   (list_all (\<lambda>e. \<not> isDidStartLoading e) pre \<longrightarrow>
      onFirstLoadFired (handleEvents (pre @ DidStartLoading peer # post) newWebviewTagHandle) =
        (case fst (webContents peer (handleEvents pre newWebviewTagHandle)) of
           Returned (Some c) \<Rightarrow> [c]
         | _ \<Rightarrow> [])) \<and>
   (list_all (\<lambda>e. \<not> isDidStartLoading e) pre \<longrightarrow>
      onFirstLoadFired (handleEvents pre newWebviewTagHandle) = []) \<and>
   (SurfaceDestroyed \<in> set pre \<and> list_all (\<lambda>e. \<not> isDidStartLoading e) pre \<longrightarrow>
      onFirstLoadFired (handleEvents (pre @ post) newWebviewTagHandle) = [])"
  using fired_at_most_once [of es] fired_at_first_signal [of pre peer post]
    never_fired_without_signal [of pre] never_fired_after_destroy [of pre post]
  by blast

theorem onFirstLoad_fires_at_first_signal_only_witness:
  "onFirstLoadFired
     (handleEvents ([ReadWebContents (Returned None)] @ DidStartLoading (Returned (Some 7)) #
        [DidStartLoading (Returned (Some 8)), SurfaceDestroyed]) newWebviewTagHandle) = [7::nat] \<and>
   onFirstLoadFired
     (handleEvents ([SurfaceDestroyed] @
        [DidStartLoading (Returned (Some 7)), DidStartLoading (Returned (Some 8))])
        newWebviewTagHandle) = ([] :: nat list)"
proof -
  have quiet: "list_all (\<lambda>e. \<not> isDidStartLoading e) [ReadWebContents (Returned None :: nat outcome)]"
    by simp
  have quiet': "SurfaceDestroyed \<in> set [SurfaceDestroyed :: nat handleSignal] \<and>
      list_all (\<lambda>e. \<not> isDidStartLoading e) [SurfaceDestroyed :: nat handleSignal]"
    by simp
  from onFirstLoad_fires_at_first_signal_only
    [of "[]" "[ReadWebContents (Returned None)]" "Returned (Some 7)"
        "[DidStartLoading (Returned (Some 8)), SurfaceDestroyed]"] quiet
  have first: "onFirstLoadFired
     (handleEvents ([ReadWebContents (Returned None)] @ DidStartLoading (Returned (Some 7)) #
        [DidStartLoading (Returned (Some 8)), SurfaceDestroyed]) newWebviewTagHandle) = [7::nat]"
    by (simp add: newWebviewTagHandle_def webContents_def)
  from onFirstLoad_fires_at_first_signal_only
    [of "[]" "[SurfaceDestroyed]" "Returned None"
        "[DidStartLoading (Returned (Some 7)), DidStartLoading (Returned (Some 8))]"] quiet'
  have second: "onFirstLoadFired
     (handleEvents ([SurfaceDestroyed] @
        [DidStartLoading (Returned (Some 7)), DidStartLoading (Returned (Some 8))])
        newWebviewTagHandle) = ([] :: nat list)"
    by blast
  from first second show ?thesis by blast
qed

text \<open>
  Claim C5, as stated, fails. A first access whose acquisition fails (the surface returns
  no reference, or throws) leaves the handle exactly as it was; with no destroy
  notification in between, the next access acquires again and returns a reference. A
  failed result is therefore not kept.
\<close>

theorem webContents_failure_not_cached_counterexample:
  "webContents (Returned None) newWebviewTagHandle =
     (Returned None, (newWebviewTagHandle :: nat webviewTagHandle)) \<and>
   fst (webContents (Returned (Some 7))
     (snd (webContents (Returned None) newWebviewTagHandle))) = Returned (Some (7::nat)) \<and>
   fst (webContents (Returned (Some 7))
     (snd (webContents Threw newWebviewTagHandle))) = Returned (Some (7::nat))"
  by (simp add: newWebviewTagHandle_def webContents_def)

text \<open>
  Claim C5, amended. The getter returns the cached session reference once one has been
  acquired, whatever the surface would return now and whatever signals other than
  \<^verbatim>\<open>'destroyed'\<close> arrive. The lazy first access attempts acquisition and caches the result
  only when it succeeded: after a failed attempt (the surface returned no reference, or
  threw) the handle is unchanged, so the next access attempts acquisition again. After a
  destroy notification the getter returns \<^verbatim>\<open>undefined\<close> on every subsequent call,
  regardless of the state of the surface.
\<close>

theorem webContents_caches_success_until_destroyed:
  "(webContentsField h = FieldContents c \<and> SurfaceDestroyed \<notin> set es \<longrightarrow>
      fst (webContents peer (handleEvents es h)) = Returned (Some c)) \<and>
   (webContentsField h = FieldUndefined \<longrightarrow>
      webContents (Returned (Some c)) h =
        (Returned (Some c), h\<lparr>webContentsField := FieldContents c\<rparr>) \<and>
      webContents (Returned None) h = (Returned None, h) \<and>
      webContents Threw h = (Threw, h)) \<and>
   (SurfaceDestroyed \<in> set es \<longrightarrow>
      fst (webContents peer (handleEvents es h)) = Returned None)"
proof (intro conjI impI)
  assume "webContentsField h = FieldContents c \<and> SurfaceDestroyed \<notin> set es"
  then have "webContentsField (handleEvents es h) = FieldContents c"
    by (simp add: contents_stays_events)
  then show "fst (webContents peer (handleEvents es h)) = Returned (Some c)"
    by (simp add: webContents_def)
next
  assume "webContentsField h = FieldUndefined"
  then show "webContents (Returned (Some c)) h =
      (Returned (Some c), h\<lparr>webContentsField := FieldContents c\<rparr>)"
    by (simp add: webContents_def)
next
  assume u: "webContentsField h = FieldUndefined"
  then have "h\<lparr>webContentsField := FieldUndefined\<rparr> = h"
    by (cases h) simp
  with u show "webContents (Returned None) h = (Returned None, h)"
    by (simp add: webContents_def)
next
  assume "webContentsField h = FieldUndefined"
  then show "webContents Threw h = (Threw, h)"
    by (simp add: webContents_def)
next
  assume "SurfaceDestroyed \<in> set es"
  then have "webContentsField (handleEvents es h) = FieldDestroyed"
    by (rule destroyed_before)
  then show "fst (webContents peer (handleEvents es h)) = Returned None"
    by (simp add: webContents_def)
qed

theorem webContents_caches_success_until_destroyed_witness:
  "fst (webContents (Returned None)
     (handleEvents [DidStartLoading (Returned (Some 8)), ReadWebContents Threw]
        (snd (webContents (Returned (Some 7)) newWebviewTagHandle)))) = Returned (Some (7::nat)) \<and>
   webContents (Returned (Some 7)) newWebviewTagHandle =
     (Returned (Some (7::nat)), newWebviewTagHandle\<lparr>webContentsField := FieldContents 7\<rparr>) \<and>
   fst (webContents (Returned (Some 8))
     (handleEvents [SurfaceDestroyed, ReadWebContents (Returned (Some 8))]
        (snd (webContents (Returned (Some 7)) newWebviewTagHandle)))) =
     (Returned None :: nat outcome)"
proof -
  let ?h = "snd (webContents (Returned (Some 7)) (newWebviewTagHandle :: nat webviewTagHandle))"
  have cached: "webContentsField ?h = FieldContents 7 \<and>
      SurfaceDestroyed \<notin> set [DidStartLoading (Returned (Some 8)), ReadWebContents Threw]"
    by (simp add: newWebviewTagHandle_def webContents_def)
  have fresh: "webContentsField (newWebviewTagHandle :: nat webviewTagHandle) = FieldUndefined"
    by (simp add: newWebviewTagHandle_def)
  have gone: "SurfaceDestroyed \<in> set [SurfaceDestroyed, ReadWebContents (Returned (Some (8::nat)))]"
    by simp
  from webContents_caches_success_until_destroyed
    [of ?h 7 "[DidStartLoading (Returned (Some 8)), ReadWebContents Threw]" "Returned None"] cached
  have a: "fst (webContents (Returned None)
     (handleEvents [DidStartLoading (Returned (Some 8)), ReadWebContents Threw] ?h)) =
     Returned (Some 7)"
    by blast
  from webContents_caches_success_until_destroyed
    [of newWebviewTagHandle 7 "[]" "Returned None"] fresh
  have b: "webContents (Returned (Some 7)) newWebviewTagHandle =
     (Returned (Some (7::nat)), newWebviewTagHandle\<lparr>webContentsField := FieldContents 7\<rparr>)"
    by blast
  from webContents_caches_success_until_destroyed
    [of ?h 7 "[SurfaceDestroyed, ReadWebContents (Returned (Some 8))]" "Returned (Some 8)"] gone
  have c: "fst (webContents (Returned (Some 8))
     (handleEvents [SurfaceDestroyed, ReadWebContents (Returned (Some 8))] ?h)) = Returned None"
    by blast
  from a b c show ?thesis by blast
qed

section \<open>Properties of the content descriptor\<close>

lemma set_html_schedules:
  "scheduledSends (set_html value v) = scheduledSends v @
     [\<lparr>messageChannel = ''content'',
       messageData = ContentData \<lparr>contents = value, dataOptions = options (content v),
                            dataState = state (content v)\<rparr>\<rparr>]"
  "elementCalls (set_html value v) = elementCalls v"
  "options (content (set_html value v)) = options (content v)"
  "state (content (set_html value v)) = state (content v)"
  "ready (set_html value v) = ready v"
  "element (set_html value v) = element v"
  by (simp_all add: set_html_def doUpdateContent_def send_def)

text \<open>
  Claim C6. Each single-field update of the descriptor (setting the state, the content
  options or the html) produces a descriptor whose two other fields are what they were
  before the call, and whose updated field is the value given (for the content options:
  unless the comparison finds them equal, when the descriptor is left as it is).
\<close>

theorem descriptor_update_keeps_other_fields:
  "html (content (set_state s v)) = html (content v) \<and>
   options (content (set_state s v)) = options (content v) \<and>
   state (content (set_state s v)) = s \<and>
   html (content (set_contentOptions areEqual opts v)) = html (content v) \<and>
   state (content (set_contentOptions areEqual opts v)) = state (content v) \<and>
   options (content (set_contentOptions areEqual opts v)) =
     (if areEqual opts (options (content v)) then options (content v) else opts) \<and>
   options (content (set_html value v)) = options (content v) \<and>
   state (content (set_html value v)) = state (content v) \<and>
   html (content (set_html value v)) = value"
  by (simp add: set_state_def set_contentOptions_def set_html_def doUpdateContent_def send_def)

text \<open>
  Claim C7. A content push (\<^verbatim>\<open>doUpdateContent\<close>) hands \<^verbatim>\<open>_send\<close> exactly one
  \<^verbatim>\<open>'content'\<close> message carrying html, options and state of the current descriptor
  together. Every \<^verbatim>\<open>set html\<close> triggers exactly one push, with the descriptor it has just
  built; so does every \<^verbatim>\<open>set contentOptions\<close> whose options the comparison does not find
  equal to the current ones; with equal options \<^verbatim>\<open>set contentOptions\<close> changes nothing;
  \<^verbatim>\<open>set state\<close> pushes nothing. Two successive \<^verbatim>\<open>set html\<close> calls give two messages,
  each with the descriptor of its moment, and on a ready bridge with its element both are
  sent to the element, in that order.
\<close>

theorem content_push_is_whole_descriptor:
  "doUpdateContent v =
     v\<lparr>scheduledSends := scheduledSends v @
       [\<lparr>messageChannel = ''content'',
         messageData = ContentData \<lparr>contents = html (content v), dataOptions = options (content v),
                              dataState = state (content v)\<rparr>\<rparr>]\<rparr> \<and>
   scheduledSends (set_html value v) = scheduledSends v @
     [\<lparr>messageChannel = ''content'',
       messageData = ContentData \<lparr>contents = value, dataOptions = options (content v),
                            dataState = state (content v)\<rparr>\<rparr>] \<and>
   (\<not> areEqual opts (options (content v)) \<longrightarrow>
      scheduledSends (set_contentOptions areEqual opts v) = scheduledSends v @
        [\<lparr>messageChannel = ''content'',
          messageData = ContentData \<lparr>contents = html (content v), dataOptions = opts,
                               dataState = state (content v)\<rparr>\<rparr>]) \<and>
   (areEqual opts (options (content v)) \<longrightarrow> set_contentOptions areEqual opts v = v) \<and>
   scheduledSends (set_state s v) = scheduledSends v \<and>
   elementCalls (set_state s v) = elementCalls v \<and>
   scheduledSends (set_html b (set_html a v)) = scheduledSends v @
     [\<lparr>messageChannel = ''content'',
       messageData = ContentData \<lparr>contents = a, dataOptions = options (content v),
                            dataState = state (content v)\<rparr>\<rparr>,
      \<lparr>messageChannel = ''content'',
       messageData = ContentData \<lparr>contents = b, dataOptions = options (content v),
                            dataState = state (content v)\<rparr>\<rparr>] \<and>
   (ready v \<and> element v \<longrightarrow>
      elementCalls (runScheduledSends (set_html b (set_html a v))) =
        elementCalls (runScheduledSends v) @
          [ElementSend \<lparr>messageChannel = ''content'',
             messageData = ContentData \<lparr>contents = a, dataOptions = options (content v),
                                  dataState = state (content v)\<rparr>\<rparr>,
           ElementSend \<lparr>messageChannel = ''content'',
             messageData = ContentData \<lparr>contents = b, dataOptions = options (content v),
                                  dataState = state (content v)\<rparr>\<rparr>])"
proof (intro conjI impI)
  show "doUpdateContent v =
     v\<lparr>scheduledSends := scheduledSends v @
       [\<lparr>messageChannel = ''content'',
         messageData = ContentData \<lparr>contents = html (content v), dataOptions = options (content v),
                              dataState = state (content v)\<rparr>\<rparr>]\<rparr>"
    by (simp add: doUpdateContent_def send_def)
next
  show "scheduledSends (set_html value v) = scheduledSends v @
     [\<lparr>messageChannel = ''content'',
       messageData = ContentData \<lparr>contents = value, dataOptions = options (content v),
                            dataState = state (content v)\<rparr>\<rparr>]"
    by (rule set_html_schedules)
next
  assume "\<not> areEqual opts (options (content v))"
  then show "scheduledSends (set_contentOptions areEqual opts v) = scheduledSends v @
        [\<lparr>messageChannel = ''content'',
          messageData = ContentData \<lparr>contents = html (content v), dataOptions = opts,
                               dataState = state (content v)\<rparr>\<rparr>]"
    by (simp add: set_contentOptions_def doUpdateContent_def send_def)
next
  assume "areEqual opts (options (content v))"
  then show "set_contentOptions areEqual opts v = v"
    by (simp add: set_contentOptions_def)
next
  show "scheduledSends (set_state s v) = scheduledSends v"
    by (simp add: set_state_def)
next
  show "elementCalls (set_state s v) = elementCalls v"
    by (simp add: set_state_def)
next
  show "scheduledSends (set_html b (set_html a v)) = scheduledSends v @
     [\<lparr>messageChannel = ''content'',
       messageData = ContentData \<lparr>contents = a, dataOptions = options (content v),
                            dataState = state (content v)\<rparr>\<rparr>,
      \<lparr>messageChannel = ''content'',
       messageData = ContentData \<lparr>contents = b, dataOptions = options (content v),
                            dataState = state (content v)\<rparr>\<rparr>]"
    by (simp add: set_html_schedules)
next
  assume "ready v \<and> element v"
  then show "elementCalls (runScheduledSends (set_html b (set_html a v))) =
        elementCalls (runScheduledSends v) @
          [ElementSend \<lparr>messageChannel = ''content'',
             messageData = ContentData \<lparr>contents = a, dataOptions = options (content v),
                                  dataState = state (content v)\<rparr>\<rparr>,
           ElementSend \<lparr>messageChannel = ''content'',
             messageData = ContentData \<lparr>contents = b, dataOptions = options (content v),
                                  dataState = state (content v)\<rparr>\<rparr>]"
    by (simp add: runScheduledSends_def set_html_schedules)
qed

theorem content_push_is_whole_descriptor_witness:
  "scheduledSends (set_contentOptions (=) (rootedOptions [[''media'']])
      (set_state (Some ''s'') (newWebview noOptions plainTheme))) =
     [\<lparr>messageChannel = ''styles'', messageData = StylesData plainTheme\<rparr>,
      \<lparr>messageChannel = ''content'',
       messageData = ContentData \<lparr>contents = [], dataOptions = rootedOptions [[''media'']],
                                   dataState = Some ''s''\<rparr>\<rparr>] \<and>
   set_contentOptions (=) noOptions (set_state (Some ''s'') (newWebview noOptions plainTheme)) =
     set_state (Some ''s'') (newWebview noOptions plainTheme) \<and>
   scheduledSends (set_html ''b'' (set_html ''a'' (newWebview noOptions plainTheme))) =
     [\<lparr>messageChannel = ''styles'', messageData = StylesData plainTheme\<rparr>,
      \<lparr>messageChannel = ''content'',
       messageData = ContentData \<lparr>contents = ''a'', dataOptions = noOptions,
                                   dataState = None\<rparr>\<rparr>,
      \<lparr>messageChannel = ''content'',
       messageData = ContentData \<lparr>contents = ''b'', dataOptions = noOptions,
                                   dataState = None\<rparr>\<rparr>] \<and>
   elementCalls (runScheduledSends (set_html ''b'' (set_html ''a''
      ((newWebview noOptions plainTheme)\<lparr>ready := True\<rparr>)))) =
     [ElementSend \<lparr>messageChannel = ''styles'', messageData = StylesData plainTheme\<rparr>,
      ElementSend \<lparr>messageChannel = ''content'',
        messageData = ContentData \<lparr>contents = ''a'', dataOptions = noOptions,
                                    dataState = None\<rparr>\<rparr>,
      ElementSend \<lparr>messageChannel = ''content'',
        messageData = ContentData \<lparr>contents = ''b'', dataOptions = noOptions,
                                    dataState = None\<rparr>\<rparr>]"
proof -
  let ?n = "newWebview noOptions plainTheme"
  let ?v = "set_state (Some ''s'') ?n"
  let ?r = "?n\<lparr>ready := True\<rparr>"
  have differ: "\<not> rootedOptions [[''media'']] = options (content ?v)"
    and same: "noOptions = options (content ?v)"
    and live: "ready ?r \<and> element ?r"
    by (simp_all add: set_state_def newWebview_def style_def send_def noOptions_def
        rootedOptions_def)
  have pending: "scheduledSends ?n =
      [\<lparr>messageChannel = ''styles'', messageData = StylesData plainTheme\<rparr>]"
    "scheduledSends ?v = scheduledSends ?n" "scheduledSends ?r = scheduledSends ?n"
    "elementCalls ?r = []"
    and descriptor: "html (content ?v) = []" "state (content ?v) = Some ''s''"
      "options (content ?n) = noOptions" "state (content ?n) = None"
      "options (content ?r) = noOptions" "state (content ?r) = None"
    by (simp_all add: set_state_def newWebview_def style_def send_def)
  from content_push_is_whole_descriptor
    [of ?v "[]" "(=)" "rootedOptions [[''media'']]" None "[]" "[]"] differ
  have a: "scheduledSends (set_contentOptions (=) (rootedOptions [[''media'']]) ?v) =
     [\<lparr>messageChannel = ''styles'', messageData = StylesData plainTheme\<rparr>,
      \<lparr>messageChannel = ''content'',
       messageData = ContentData \<lparr>contents = [], dataOptions = rootedOptions [[''media'']],
                                   dataState = Some ''s''\<rparr>\<rparr>]"
    by (simp add: pending descriptor)
  from content_push_is_whole_descriptor [of ?v "[]" "(=)" noOptions None "[]" "[]"] same
  have b: "set_contentOptions (=) noOptions ?v = ?v"
    by blast
  from content_push_is_whole_descriptor [of ?n "[]" "(=)" noOptions None "''b''" "''a''"]
  have c: "scheduledSends (set_html ''b'' (set_html ''a'' ?n)) =
     [\<lparr>messageChannel = ''styles'', messageData = StylesData plainTheme\<rparr>,
      \<lparr>messageChannel = ''content'',
       messageData = ContentData \<lparr>contents = ''a'', dataOptions = noOptions,
                                   dataState = None\<rparr>\<rparr>,
      \<lparr>messageChannel = ''content'',
       messageData = ContentData \<lparr>contents = ''b'', dataOptions = noOptions,
                                   dataState = None\<rparr>\<rparr>]"
    by (simp add: pending descriptor)
  have delivered: "elementCalls (runScheduledSends ?r) =
      [ElementSend \<lparr>messageChannel = ''styles'', messageData = StylesData plainTheme\<rparr>]"
    using live by (simp add: runScheduledSends_def pending)
  from content_push_is_whole_descriptor [of ?r "[]" "(=)" noOptions None "''b''" "''a''"] live
  have d: "elementCalls (runScheduledSends (set_html ''b'' (set_html ''a'' ?r))) =
     [ElementSend \<lparr>messageChannel = ''styles'', messageData = StylesData plainTheme\<rparr>,
      ElementSend \<lparr>messageChannel = ''content'',
        messageData = ContentData \<lparr>contents = ''a'', dataOptions = noOptions,
                                    dataState = None\<rparr>\<rparr>,
      ElementSend \<lparr>messageChannel = ''content'',
        messageData = ContentData \<lparr>contents = ''b'', dataOptions = noOptions,
                                    dataState = None\<rparr>\<rparr>]"
    by (simp add: delivered descriptor)
  from a b c d show ?thesis by blast
qed

section \<open>Properties of focus, find and the inbound channels\<close>

lemma channels_distinct:
  "didFocus \<noteq> doReload" "didFocus \<noteq> doUpdateState" "didFocus \<noteq> didBlur"
  by (simp_all add: didFocus_def doReload_def doUpdateState_def didBlur_def)

lemma ipcMessage_didFocus:
  "element v \<Longrightarrow> channel event = didFocus \<Longrightarrow> args event = Some (a # rest) \<Longrightarrow>
   ipcMessage event v = handleFocusChange True v"
  by (simp add: ipcMessage_def ipcMessageListener_def ipcMessageArgument_def channels_distinct
      didFocusHandler_def handleFocusChange_def Let_def)

lemma handleFocusChange_True:
  "focused (handleFocusChange True v)"
  "onDidFocusFired (handleFocusChange True v) = Suc (onDidFocusFired v)"
  "element (handleFocusChange True v) = element v"
  by (simp_all add: handleFocusChange_def Let_def)

lemma ipcMessage_no_argument:
  "args event = None \<or> args event = Some [] \<Longrightarrow> ipcMessage event v = v"
  by (auto simp add: ipcMessage_def ipcMessageListener_def ipcMessageArgument_def)

lemma didFocus_signals_all_fire:
  "element v \<Longrightarrow>
   list_all (\<lambda>e. channel e = didFocus \<and> (\<exists>a rest. args e = Some (a # rest))) events \<Longrightarrow>
   onDidFocusFired (ipcMessages events v) = onDidFocusFired v + length events \<and>
   element (ipcMessages events v) \<and>
   (events \<noteq> [] \<longrightarrow> focused (ipcMessages events v))"
proof (induction events arbitrary: v)
  case Nil
  then show ?case by simp
next
  case (Cons e events)
  from Cons.prems obtain a rest where e: "channel e = didFocus" "args e = Some (a # rest)"
    and others: "list_all (\<lambda>e. channel e = didFocus \<and> (\<exists>a rest. args e = Some (a # rest))) events"
    by auto
  let ?v = "handleFocusChange True v"
  from Cons.prems(1) e have step: "ipcMessage e v = ?v"
    by (rule ipcMessage_didFocus)
  from Cons.prems(1) have live: "element ?v"
    by (simp add: handleFocusChange_True)
  from Cons.IH [OF live others]
  have ih: "onDidFocusFired (ipcMessages events ?v) = onDidFocusFired ?v + length events"
    "element (ipcMessages events ?v)"
    "events \<noteq> [] \<longrightarrow> focused (ipcMessages events ?v)"
    by simp_all
  have "focused (ipcMessages events ?v)"
  proof (cases events)
    case Nil
    then show ?thesis by (simp add: handleFocusChange_True)
  next
    case (Cons e' events')
    with ih(3) show ?thesis by simp
  qed
  with ih(1,2) show ?case
    by (simp add: step handleFocusChange_True)
qed

text \<open>
  Claim C8, as stated, fails. \<^verbatim>\<open>handleFocusChange\<close> assigns the flag and fires whenever
  its argument is true; it does not compare with the previous value. After one
  \<^verbatim>\<open>did-focus\<close> signal the bridge is focused and the notification has fired once; a
  second signal, arriving while the bridge is focused, fires it a second time.
\<close>

theorem repeated_focus_signal_fires_again_counterexample:
  "focused (ipcMessage \<lparr>channel = didFocus, args = Some [None]\<rparr> (newWebview noOptions plainTheme)) \<and>
   onDidFocusFired
     (ipcMessage \<lparr>channel = didFocus, args = Some [None]\<rparr> (newWebview noOptions plainTheme)) = 1 \<and>
   onDidFocusFired
     (ipcMessage \<lparr>channel = didFocus, args = Some [None]\<rparr>
       (ipcMessage \<lparr>channel = didFocus, args = Some [None]\<rparr> (newWebview noOptions plainTheme))) = 2"
  by (simp add: ipcMessage_def ipcMessageListener_def ipcMessageArgument_def channels_distinct
      didFocusHandler_def handleFocusChange_def Let_def newWebview_def style_def send_def)

text \<open>
  Claim C8, amended. An inbound \<^verbatim>\<open>did-focus\<close> signal (carrying at least one argument, on a
  bridge with its element) sets the focused flag to true and fires the focus notification,
  whether or not the bridge was focused already: for every sequence of such signals, the
  notification fires once per signal.
\<close>

theorem focus_signal_always_fires:
  "(element v \<and> channel event = didFocus \<and> args event = Some (a # rest) \<longrightarrow>
      focused (ipcMessage event v) \<and>
      onDidFocusFired (ipcMessage event v) = Suc (onDidFocusFired v)) \<and>
   (element v \<and>
    list_all (\<lambda>e. channel e = didFocus \<and> (\<exists>a rest. args e = Some (a # rest))) events \<longrightarrow>
      onDidFocusFired (ipcMessages events v) = onDidFocusFired v + length events)"
  using ipcMessage_didFocus [of v event a rest] handleFocusChange_True(1,2) [of v]
    didFocus_signals_all_fire [of v events]
  by simp

theorem focus_signal_always_fires_witness:
  "focused (ipcMessage \<lparr>channel = didFocus, args = Some [None, Some ''x'']\<rparr>
      (focus (newWebview noOptions plainTheme))) \<and>
   onDidFocusFired (ipcMessage \<lparr>channel = didFocus, args = Some [None, Some ''x'']\<rparr>
      (focus (newWebview noOptions plainTheme))) = Suc (onDidFocusFired (focus (newWebview noOptions plainTheme))) \<and>
   onDidFocusFired (focus (newWebview noOptions plainTheme)) = 1 \<and>
   onDidFocusFired
     (ipcMessages [\<lparr>channel = didFocus, args = Some [None]\<rparr>,
                   \<lparr>channel = didFocus, args = Some [Some ''x'']\<rparr>,
                   \<lparr>channel = didFocus, args = Some [None]\<rparr>] (newWebview noOptions plainTheme)) = 3"
proof -
  let ?e = "\<lparr>channel = didFocus, args = Some [None, Some ''x'']\<rparr>"
  let ?es = "[\<lparr>channel = didFocus, args = Some [None]\<rparr>,
              \<lparr>channel = didFocus, args = Some [Some ''x'']\<rparr>,
              \<lparr>channel = didFocus, args = Some [None]\<rparr>]"
  have one: "element (focus (newWebview noOptions plainTheme)) \<and> channel ?e = didFocus \<and>
      args ?e = Some (None # [Some ''x''])"
    by (simp add: focus_def newWebview_def style_def send_def handleFocusChange_def send_def Let_def)
  have many: "element (newWebview noOptions plainTheme) \<and>
      list_all (\<lambda>e. channel e = didFocus \<and> (\<exists>a rest. args e = Some (a # rest))) ?es"
    by (simp add: newWebview_def style_def send_def)
  have fired: "onDidFocusFired (focus (newWebview noOptions plainTheme)) = 1"
    by (simp add: focus_def newWebview_def style_def send_def handleFocusChange_def send_def Let_def)
  from focus_signal_always_fires
    [of "focus (newWebview noOptions plainTheme)" ?e None "[Some ''x'']" "[]"] one
  have a: "focused (ipcMessage ?e (focus (newWebview noOptions plainTheme))) \<and>
      onDidFocusFired (ipcMessage ?e (focus (newWebview noOptions plainTheme))) =
        Suc (onDidFocusFired (focus (newWebview noOptions plainTheme)))"
    by blast
  from focus_signal_always_fires
    [of "newWebview noOptions plainTheme" ?e None "[Some ''x'']" ?es] many
  have "onDidFocusFired (ipcMessages ?es (newWebview noOptions plainTheme)) =
      onDidFocusFired (newWebview noOptions plainTheme) + length ?es"
    by blast
  then have b: "onDidFocusFired (ipcMessages ?es (newWebview noOptions plainTheme)) = 3"
    by (simp add: newWebview_def style_def send_def)
  from a fired b show ?thesis by blast
qed

text \<open>
  Claim C9, as stated, fails. \<^verbatim>\<open>stopFind\<close> fires the emitter, then returns when the
  element is gone, before it resets \<^verbatim>\<open>_findStarted\<close>. On a bridge whose find session was
  started and whose element has since been removed, \<^verbatim>\<open>stopFind\<close> leaves the session
  started, however often it is called.
\<close>

theorem stopFind_without_element_counterexample:
  "findStarted ((startFind ''foo'' None (newWebview noOptions plainTheme))\<lparr>element := False\<rparr>) \<and>
   findStarted
     (stopFind None ((startFind ''foo'' None (newWebview noOptions plainTheme))\<lparr>element := False\<rparr>)) \<and>
   findStarted
     (stopFind (Some True) (stopFind None
       ((startFind ''foo'' None (newWebview noOptions plainTheme))\<lparr>element := False\<rparr>)))"
  by (simp add: startFind_def stopFind_def newWebview_def style_def send_def Let_def)

text \<open>
  Claim C9, amended. For every prior state of the bridge (find session started or never
  started), every call to \<^verbatim>\<open>stopFind\<close> fires a false ``has result'' signal, exactly one.
  On a bridge with its element the call leaves the find session not started and issues one
  \<^verbatim>\<open>stopFindInPage\<close>; calling it again from there re-establishes the same. On a bridge
  without its element the call changes nothing but the firing: the started flag is left as
  it was.
\<close>

theorem stopFind_resets_with_element:
  "hasFindResultFired (stopFind keepSelection v) = hasFindResultFired v @ [False] \<and>
   (element v \<longrightarrow>
      findStarted (stopFind keepSelection v) = False \<and>
      elementCalls (stopFind keepSelection v) = elementCalls v @
        [StopFindInPage
          (if keepSelection = Some True then ''keepSelection'' else ''clearSelection'')] \<and>
      findStarted (stopFind again (stopFind keepSelection v)) = False \<and>
      hasFindResultFired (stopFind again (stopFind keepSelection v)) =
        hasFindResultFired v @ [False, False]) \<and>
   (\<not> element v \<longrightarrow>
      stopFind keepSelection v = v\<lparr>hasFindResultFired := hasFindResultFired v @ [False]\<rparr>)"
  by (simp add: stopFind_def Let_def)

theorem stopFind_resets_with_element_witness:
  "findStarted (startFind ''foo'' None (newWebview noOptions plainTheme)) \<and>
   findStarted (stopFind (Some True) (startFind ''foo'' None (newWebview noOptions plainTheme))) = False \<and>
   hasFindResultFired (stopFind (Some True) (startFind ''foo'' None (newWebview noOptions plainTheme))) =
     [False] \<and>
   elementCalls (stopFind (Some True) (startFind ''foo'' None (newWebview noOptions plainTheme))) =
     elementCalls (startFind ''foo'' None (newWebview noOptions plainTheme)) @
       [StopFindInPage ''keepSelection''] \<and>
   findStarted (stopFind None (newWebview noOptions plainTheme)) = False \<and>
   hasFindResultFired (stopFind None (newWebview noOptions plainTheme)) = [False] \<and>
   stopFind None ((newWebview noOptions plainTheme)\<lparr>element := False\<rparr>) =
     (newWebview noOptions plainTheme)\<lparr>element := False, hasFindResultFired := [False]\<rparr>"
proof -
  let ?started = "startFind ''foo'' None (newWebview noOptions plainTheme)"
  let ?gone = "(newWebview noOptions plainTheme)\<lparr>element := False\<rparr>"
  have live: "element ?started" "element (newWebview noOptions plainTheme)" "\<not> element ?gone"
    and before: "findStarted ?started" "hasFindResultFired ?started = []"
      "hasFindResultFired (newWebview noOptions plainTheme) = []" "hasFindResultFired ?gone = []"
    by (simp_all add: startFind_def newWebview_def style_def send_def Let_def)
  from stopFind_resets_with_element [of "Some True" ?started None] live(1) before(2)
  have a: "findStarted (stopFind (Some True) ?started) = False \<and>
      hasFindResultFired (stopFind (Some True) ?started) = [False] \<and>
      elementCalls (stopFind (Some True) ?started) =
        elementCalls ?started @ [StopFindInPage ''keepSelection'']"
    by simp
  from stopFind_resets_with_element [of None "newWebview noOptions plainTheme" None] live(2) before(3)
  have b: "findStarted (stopFind None (newWebview noOptions plainTheme)) = False \<and>
      hasFindResultFired (stopFind None (newWebview noOptions plainTheme)) = [False]"
    by simp
  from stopFind_resets_with_element [of None ?gone None] live(3) before(4)
  have c: "stopFind None ?gone = (newWebview noOptions plainTheme)\<lparr>element := False, hasFindResultFired := [False]\<rparr>"
    by simp
  from a b c before(1) show ?thesis by blast
qed

text \<open>
  Claim C10. The listener that \<^verbatim>\<open>on(channel, handler)\<close> registers invokes the handler
  exactly for the events whose channel is that channel and whose argument list is present
  and not empty (the bridge having its element), and hands it the first argument. An event
  without arguments therefore reaches no subscriber: whatever its channel (also
  \<^verbatim>\<open>did-focus\<close>, \<^verbatim>\<open>did-blur\<close> or \<^verbatim>\<open>do-reload\<close>, whose handlers ignore their argument),
  the listener returns without calling the handler and the bridge is left as it was.
\<close>

theorem on_hands_over_first_argument:
  "(ipcMessageArgument ch event v = Some data \<longleftrightarrow>
      element v \<and> channel event = ch \<and> (\<exists>rest. args event = Some (data # rest))) \<and>
   (on ch handler v0 = Some listener \<longrightarrow>
      listener event v =
        (case ipcMessageArgument ch event v of None \<Rightarrow> v | Some data' \<Rightarrow> handler data' v)) \<and>
   (args event = None \<or> args event = Some [] \<longrightarrow>
      ipcMessageArgument ch event v = None \<and> ipcMessageListener ch handler event v = v) \<and>
   (args bridgeEvent = None \<or> args bridgeEvent = Some [] \<longrightarrow> ipcMessage bridgeEvent v = v)"
proof (intro conjI impI)
  show "ipcMessageArgument ch event v = Some data \<longleftrightarrow>
      element v \<and> channel event = ch \<and> (\<exists>rest. args event = Some (data # rest))"
    by (auto simp add: ipcMessageArgument_def split: option.splits list.splits)
next
  assume "on ch handler v0 = Some listener"
  then have "listener = ipcMessageListener ch handler"
    by (simp add: on_def split: if_splits)
  then show "listener event v =
      (case ipcMessageArgument ch event v of None \<Rightarrow> v | Some data' \<Rightarrow> handler data' v)"
    by (simp add: ipcMessageListener_def)
next
  assume "args event = None \<or> args event = Some []"
  then show "ipcMessageArgument ch event v = None"
    by (auto simp add: ipcMessageArgument_def)
next
  assume "args event = None \<or> args event = Some []"
  then show "ipcMessageListener ch handler event v = v"
    by (auto simp add: ipcMessageListener_def ipcMessageArgument_def)
next
  assume "args bridgeEvent = None \<or> args bridgeEvent = Some []"
  then show "ipcMessage bridgeEvent v = v"
    by (rule ipcMessage_no_argument)
qed

theorem on_hands_over_first_argument_witness:
  "ipcMessageArgument didFocus \<lparr>channel = didFocus, args = Some [Some ''x'', None]\<rparr>
     (newWebview noOptions plainTheme) = Some (Some ''x'') \<and>
   on doUpdateState doUpdateStateHandler (newWebview noOptions plainTheme) =
     Some (ipcMessageListener doUpdateState doUpdateStateHandler) \<and>
   state (content (ipcMessageListener doUpdateState doUpdateStateHandler
     \<lparr>channel = doUpdateState, args = Some [Some ''s'', Some ''t'']\<rparr> (newWebview noOptions plainTheme))) =
     Some ''s'' \<and>
   ipcMessageArgument didFocus \<lparr>channel = didFocus, args = Some ([] :: string option list)\<rparr>
     (newWebview noOptions plainTheme) = None \<and>
   ipcMessage \<lparr>channel = didFocus, args = Some []\<rparr> (newWebview noOptions plainTheme) =
     newWebview noOptions plainTheme \<and>
   ipcMessage \<lparr>channel = doReload, args = None\<rparr> (newWebview noOptions plainTheme) =
     newWebview noOptions plainTheme"
proof -
  let ?v = "newWebview noOptions plainTheme"
  let ?focus = "\<lparr>channel = didFocus, args = Some [Some ''x'', None]\<rparr>"
  let ?update = "\<lparr>channel = doUpdateState, args = Some [Some ''s'', Some ''t'']\<rparr>"
  let ?bare = "\<lparr>channel = didFocus, args = Some ([] :: string option list)\<rparr>"
  let ?absent = "\<lparr>channel = doReload, args = (None :: string option list option)\<rparr>"
  have matches: "element ?v \<and> channel ?focus = didFocus \<and>
      (\<exists>rest. args ?focus = Some (Some ''x'' # rest))"
    by (simp add: newWebview_def style_def send_def)
  have registered: "on doUpdateState doUpdateStateHandler ?v =
      Some (ipcMessageListener doUpdateState doUpdateStateHandler)"
    by (simp add: on_def newWebview_def style_def send_def)
  have empty: "args ?bare = None \<or> args ?bare = Some []"
    and none: "args ?absent = None \<or> args ?absent = Some []"
    by simp_all
  from on_hands_over_first_argument
    [of didFocus ?focus ?v "Some ''x''" didFocusHandler ?v
        "ipcMessageListener didFocus didFocusHandler" ?bare] matches
  have a: "ipcMessageArgument didFocus ?focus ?v = Some (Some ''x'')"
    by blast
  from on_hands_over_first_argument
    [of doUpdateState ?update ?v "Some ''s''" doUpdateStateHandler ?v
        "ipcMessageListener doUpdateState doUpdateStateHandler" ?bare] registered
  have "ipcMessageListener doUpdateState doUpdateStateHandler ?update ?v =
      (case ipcMessageArgument doUpdateState ?update ?v of
         None \<Rightarrow> ?v
       | Some data' \<Rightarrow> doUpdateStateHandler data' ?v)"
    by blast
  then have b: "state (content (ipcMessageListener doUpdateState doUpdateStateHandler
      ?update ?v)) = Some ''s''"
    by (simp add: ipcMessageArgument_def doUpdateStateHandler_def set_state_def Let_def
        newWebview_def style_def send_def)
  from on_hands_over_first_argument
    [of didFocus ?bare ?v "Some ''x''" didFocusHandler ?v
        "ipcMessageListener didFocus didFocusHandler" ?bare] empty
  have c: "ipcMessageArgument didFocus ?bare ?v = None \<and> ipcMessage ?bare ?v = ?v"
    by blast
  from on_hands_over_first_argument
    [of didFocus ?bare ?v "Some ''x''" didFocusHandler ?v
        "ipcMessageListener didFocus didFocusHandler" ?absent] none
  have d: "ipcMessage ?absent ?v = ?v"
    by blast
  from a registered b c d show ?thesis by blast
qed

section \<open>Properties of the resource protocol\<close>

lemma resourceRequest_registered:
  "resourceRequest (registerProtocols provider v0) target v =
     (if list_ex (\<lambda>root. prefix root target)
          ((case getExtensionLocation provider v0 of None \<Rightarrow> [] | Some l \<Rightarrow> [l]) @
           getLocalResourceRoots provider v)
      then ResourceAllowed else ResourceDenied)"
  by (simp add: resourceRequest_def registerProtocols_def registerFileProtocol_def
      permittedRoots_def)

text \<open>
  Claim C3, as stated, fails for the extension install location. \<^verbatim>\<open>registerProtocols\<close>
  calls the location accessor once, when the protocol is registered, and hands on its value.
  A bridge is given an extension installed at \<open>ext1\<close>, its protocol is registered, and a
  resource under \<open>ext2\<close> is requested and denied. The extension is then replaced by one
  installed at \<open>ext2\<close>: the accessor now returns \<open>ext2\<close>, and the identical request is
  denied again. Only a protocol registered afterwards allows it.
\<close>

theorem extension_location_fixed_at_registration_counterexample:
  "resourceRequest
     (registerProtocols newWebviewProtocolProvider (installedAt [''ext1''] (newWebview noOptions plainTheme)))
     [''ext2'', ''media'', ''a.png''] (installedAt [''ext1''] (newWebview noOptions plainTheme)) =
     ResourceDenied \<and>
   getExtensionLocation newWebviewProtocolProvider
     (installedAt [''ext2''] (newWebview noOptions plainTheme)) = Some [''ext2''] \<and>
   resourceRequest
     (registerProtocols newWebviewProtocolProvider (installedAt [''ext1''] (newWebview noOptions plainTheme)))
     [''ext2'', ''media'', ''a.png''] (installedAt [''ext2''] (newWebview noOptions plainTheme)) =
     ResourceDenied \<and>
   resourceRequest
     (registerProtocols newWebviewProtocolProvider (installedAt [''ext2''] (newWebview noOptions plainTheme)))
     [''ext2'', ''media'', ''a.png''] (installedAt [''ext2''] (newWebview noOptions plainTheme)) =
     ResourceAllowed"
  by (simp add: resourceRequest_registered newWebviewProtocolProvider_def
      extensionLocationAccessor_def localResourceRootsAccessor_def installedAt_def
      newWebview_def style_def send_def noOptions_def)

text \<open>
  Claim C3, amended. For every custom-scheme resource request, the local resource root set
  used for the permission check is obtained by evaluating its accessor at the time of that
  request; the extension install location is the one its accessor returned when the
  protocol was registered. Hence changing the root set between two identical requests
  changes the outcome of the second request without re-registration, while two requests
  made under the same root set have the same outcome whatever has happened to the
  extension in between.
\<close>

theorem resource_roots_live_location_at_registration:
  "resourceRequest (registerProtocols provider v0) target v =
     (if list_ex (\<lambda>root. prefix root target)
          ((case getExtensionLocation provider v0 of None \<Rightarrow> [] | Some l \<Rightarrow> [l]) @
           getLocalResourceRoots provider v)
      then ResourceAllowed else ResourceDenied) \<and>
   (getLocalResourceRoots provider v1 = getLocalResourceRoots provider v2 \<longrightarrow>
      resourceRequest (registerProtocols provider v0) target v1 =
      resourceRequest (registerProtocols provider v0) target v2)"
  by (simp add: resourceRequest_registered)

theorem resource_roots_live_location_at_registration_witness:
  "resourceRequest (registerProtocols newWebviewProtocolProvider (newWebview noOptions plainTheme))
     [''media'', ''a.png''] (newWebview noOptions plainTheme) = ResourceDenied \<and>
   resourceRequest (registerProtocols newWebviewProtocolProvider (newWebview noOptions plainTheme))
     [''media'', ''a.png'']
     (set_contentOptions (=) (rootedOptions [[''media'']]) (newWebview noOptions plainTheme)) =
     ResourceAllowed \<and>
   resourceRequest (registerProtocols newWebviewProtocolProvider (newWebview noOptions plainTheme))
     [''media'', ''a.png''] (installedAt [''media''] (newWebview noOptions plainTheme)) =
   resourceRequest (registerProtocols newWebviewProtocolProvider (newWebview noOptions plainTheme))
     [''media'', ''a.png''] (newWebview noOptions plainTheme)"
proof -
  let ?v = "newWebview noOptions plainTheme"
  let ?rooted = "set_contentOptions (=) (rootedOptions [[''media'']]) ?v"
  have roots: "getLocalResourceRoots newWebviewProtocolProvider ?v = []"
    "getLocalResourceRoots newWebviewProtocolProvider ?rooted = [[''media'']]"
    "getExtensionLocation newWebviewProtocolProvider ?v = None"
    by (simp_all add: newWebviewProtocolProvider_def localResourceRootsAccessor_def
        extensionLocationAccessor_def newWebview_def style_def send_def noOptions_def rootedOptions_def
        set_contentOptions_def doUpdateContent_def send_def)
  have same: "getLocalResourceRoots newWebviewProtocolProvider (installedAt [''media''] ?v) =
      getLocalResourceRoots newWebviewProtocolProvider ?v"
    by (simp add: newWebviewProtocolProvider_def localResourceRootsAccessor_def installedAt_def)
  from resource_roots_live_location_at_registration
    [of newWebviewProtocolProvider ?v "[''media'', ''a.png'']" ?v ?v ?v]
  have a: "resourceRequest (registerProtocols newWebviewProtocolProvider ?v)
      [''media'', ''a.png''] ?v = ResourceDenied"
    by (simp add: roots)
  from resource_roots_live_location_at_registration
    [of newWebviewProtocolProvider ?v "[''media'', ''a.png'']" ?rooted ?v ?v]
  have b: "resourceRequest (registerProtocols newWebviewProtocolProvider ?v)
      [''media'', ''a.png''] ?rooted = ResourceAllowed"
    by (simp add: roots)
  from resource_roots_live_location_at_registration
    [of newWebviewProtocolProvider ?v "[''media'', ''a.png'']" ?v
        "installedAt [''media''] ?v" ?v] same
  have c: "resourceRequest (registerProtocols newWebviewProtocolProvider ?v)
      [''media'', ''a.png''] (installedAt [''media''] ?v) =
    resourceRequest (registerProtocols newWebviewProtocolProvider ?v)
      [''media'', ''a.png''] ?v"
    by blast
  from a b c show ?thesis by blast
qed

end
